theory Spec2Isabelle
  imports Main "HOL-Library.Sublist"
begin

section \<open>Domain vocabulary (types.ts)\<close>

text \<open>
  The five TypeScript string enums. Each constructor keeps the name of the enum member;
  the function \<open>X_value\<close> gives the string the member stands for at run time (what a
  template literal or an object key sees).
\<close>

datatype BodyWood = MAHOGANY | ASH | ALDER | MAPLE | BASSWOOD | KOA

datatype NeckProfile = MODERN_C | VINTAGE_50S | SLIM_TAPER | WIZARD

datatype FretboardMaterial = ROSEWOOD | MAPLE | EBONY | PAU_FERRO

datatype BridgeSystem = TUNE_O_MATIC | HARDTAIL | SYNCHRONIZED_TREMOLO | FLOYD_ROSE | EVERTUNE

datatype PickupConfig = SSS | HSS | HH | P90

fun BodyWood_value :: "BodyWood \<Rightarrow> string" where
  "BodyWood_value BodyWood.MAHOGANY = ''Mahogany''"
| "BodyWood_value BodyWood.ASH = ''Swamp Ash''"
| "BodyWood_value BodyWood.ALDER = ''Alder''"
| "BodyWood_value BodyWood.MAPLE = ''Maple''"
| "BodyWood_value BodyWood.BASSWOOD = ''Basswood''"
| "BodyWood_value BodyWood.KOA = ''Koa''"

fun NeckProfile_value :: "NeckProfile \<Rightarrow> string" where
  "NeckProfile_value NeckProfile.MODERN_C = ''Modern C''"
| "NeckProfile_value NeckProfile.VINTAGE_50S = ''50s Vintage U''"
| "NeckProfile_value NeckProfile.SLIM_TAPER = ''Slim Taper D''"
| "NeckProfile_value NeckProfile.WIZARD = ''Super Thin (Wizard)''"

fun FretboardMaterial_value :: "FretboardMaterial \<Rightarrow> string" where
  "FretboardMaterial_value FretboardMaterial.ROSEWOOD = ''Rosewood''"
| "FretboardMaterial_value FretboardMaterial.MAPLE = ''Maple''"
| "FretboardMaterial_value FretboardMaterial.EBONY = ''Ebony''"
| "FretboardMaterial_value FretboardMaterial.PAU_FERRO = ''Pau Ferro''"

fun BridgeSystem_value :: "BridgeSystem \<Rightarrow> string" where
  "BridgeSystem_value BridgeSystem.TUNE_O_MATIC = ''Tune-o-matic (Fixed)''"
| "BridgeSystem_value BridgeSystem.HARDTAIL = ''Hardtail (String-thru)''"
| "BridgeSystem_value BridgeSystem.SYNCHRONIZED_TREMOLO = ''Synchronized Tremolo (Vintage)''"
| "BridgeSystem_value BridgeSystem.FLOYD_ROSE = ''Floyd Rose (Double Locking)''"
| "BridgeSystem_value BridgeSystem.EVERTUNE = ''Evertune (Spring Tension)''"

fun PickupConfig_value :: "PickupConfig \<Rightarrow> string" where
  "PickupConfig_value PickupConfig.SSS = ''SSS (3 Single Coils)''"
| "PickupConfig_value PickupConfig.HSS = ''HSS (Humbucker Bridge)''"
| "PickupConfig_value PickupConfig.HH = ''HH (Dual Humbuckers)''"
| "PickupConfig_value PickupConfig.P90 = ''Dual P-90s''"

text \<open>
  \<open>interface GuitarSpecs\<close>: the three fields marked \<open>?\<close> in the source are optional,
  so they are options here (\<open>None\<close> is JavaScript's \<open>undefined\<close>).
\<close>

record GuitarSpecs =
  bodyWood :: BodyWood
  neckProfile :: NeckProfile
  fretboard :: FretboardMaterial
  bridge :: BridgeSystem
  pickups :: PickupConfig
  scaleLength :: string
  fretboardRadius :: string
  "notes" :: "string option"
  construction :: "string option"
  philosophy :: "string option"

section \<open>Characteristic tables (constants.ts)\<close>

text \<open>
  Each table is an object literal with computed keys \<open>[BodyWood.MAHOGANY]: "..."\<close>.
  An object literal is evaluated entry by entry, a later entry replacing an earlier one
  with the same key; \<open>js_object\<close> builds the resulting finite map, and indexing
  \<open>TABLE[v]\<close> is the map applied to the string value of \<open>v\<close> (\<open>None\<close> is
  \<open>undefined\<close>).
\<close>

definition js_object :: "(string \<times> 'v) list \<Rightarrow> (string \<rightharpoonup> 'v)" where
  "js_object kvs = foldl (\<lambda>m kv. m(fst kv \<mapsto> snd kv)) Map.empty kvs"

definition WOOD_CHARACTERISTICS :: "string \<rightharpoonup> string" where
  "WOOD_CHARACTERISTICS = js_object
    [(BodyWood_value BodyWood.MAHOGANY, ''High density, warm lows/mids, slow decay. Visually porous grain, often reddish-brown.''),
     (BodyWood_value BodyWood.ASH, ''Lightweight, scooped mids, pronounced 'twang' and high-end snap. Distinctive, bold grain patterns.''),
     (BodyWood_value BodyWood.ALDER, ''Balanced weight and frequency response. The neutral standard for bolt-on bodies. Closed grain.''),
     (BodyWood_value BodyWood.MAPLE, ''Extreme density, very bright attack, heavy weight. Tight grain, often figured (flame/quilt).''),
     (BodyWood_value BodyWood.BASSWOOD, ''Soft, lightweight, neutral tone with strong fundamental. Minimal grain definition.''),
     (BodyWood_value BodyWood.KOA, ''Medium density, crisp highs that warm up over time. Exotic, highly figured golden/brown grain.'')]"

definition NECK_CHARACTERISTICS :: "string \<rightharpoonup> string" where
  "NECK_CHARACTERISTICS = js_object
    [(NeckProfile_value NeckProfile.MODERN_C, ''Oval ergonomic profile, standard for contemporary playability.''),
     (NeckProfile_value NeckProfile.VINTAGE_50S, ''Thick 'Baseball Bat' profile, maximizes mechanical coupling and sustain.''),
     (NeckProfile_value NeckProfile.SLIM_TAPER, ''Flat 'D' shape, low mass, favored for faster playing styles.''),
     (NeckProfile_value NeckProfile.WIZARD, ''Ultra-thin, flat radius, reinforced with volute or multi-ply for stability.'')]"

definition BRIDGE_MECHANICS :: "string \<rightharpoonup> string" where
  "BRIDGE_MECHANICS = js_object
    [(BridgeSystem_value BridgeSystem.TUNE_O_MATIC, ''Fixed bridge, sharp break angle, maximizes body resonance transfer.''),
     (BridgeSystem_value BridgeSystem.HARDTAIL, ''String-through body, high tuning stability, direct vibration transfer.''),
     (BridgeSystem_value BridgeSystem.SYNCHRONIZED_TREMOLO, ''Vintage vibrato fulcrum, relies on spring claw tension.''),
     (BridgeSystem_value BridgeSystem.FLOYD_ROSE, ''Double locking nut/bridge, infinite sustain, dive-bomb capability.''),
     (BridgeSystem_value BridgeSystem.EVERTUNE, ''Mechanical spring modules per saddle, constant tension, zero pitch drift.'')]"

definition FRETBOARD_RESPONSE :: "string \<rightharpoonup> string" where
  "FRETBOARD_RESPONSE = js_object
    [(FretboardMaterial_value FretboardMaterial.EBONY, ''Extreme hardness, glass-like surface, immediate transient attack.''),
     (FretboardMaterial_value FretboardMaterial.MAPLE, ''Finished surface, bright snap, distinct separation of notes.''),
     (FretboardMaterial_value FretboardMaterial.ROSEWOOD, ''Oily open pore, warm attack, attenuates harsh high frequencies.''),
     (FretboardMaterial_value FretboardMaterial.PAU_FERRO, ''Harder than rosewood, snappy attack, tight grain structure.'')]"

section \<open>JavaScript values and library functions used by the code\<close>

text \<open>
  A JavaScript string is modelled by the bytes of its UTF-8 encoding: a character of
  ASCII is one \<open>char\<close>, any other code point is a lead byte followed by its continuation
  bytes. Concatenation, \<open>includes\<close>, \<open>split\<close> at a comma and emptiness are the same
  on either representation.
\<close>

definition is_ascii :: "char \<Rightarrow> bool" where
  "is_ascii c = (\<not> digit7 c)"

definition is_continuation :: "char \<Rightarrow> bool" where
  "is_continuation c = (digit7 c \<and> \<not> digit6 c)"

text \<open>The code points of a string, each as its bytes.\<close>

function code_points :: "string \<Rightarrow> string list" where
  "code_points [] = []"
| "code_points (b # bs) =
     (if is_ascii b then [b] # code_points bs
      else (b # takeWhile is_continuation bs) # code_points (dropWhile is_continuation bs))"
  by pat_completeness auto
termination
  by (relation "measure length") (auto simp: length_dropWhile_le less_Suc_eq_le)

text \<open>
  \<open>toLowerCase\<close> replaces every code point by its lower-case image from the Unicode
  tables. On ASCII it turns each of \<open>A\<close> to \<open>Z\<close> into the letter at the same place
  in \<open>a\<close> to \<open>z\<close> and keeps every other character. Two code points outside ASCII
  have ASCII in their image: the Kelvin sign U+212A becomes \<open>k\<close>, and the capital I
  with dot above U+0130 becomes \<open>i\<close> followed by the combining dot U+0307. The images of
  all other code points are the parameter \<open>table\<close>, applied to the text before the code
  point, the code point and the text after it (the image of a capital sigma depends on
  its neighbours).
\<close>

definition upper_letters :: string where
  "upper_letters = ''ABCDEFGHIJKLMNOPQRSTUVWXYZ''"

definition lower_letters :: string where
  "lower_letters = ''abcdefghijklmnopqrstuvwxyz''"

definition toLowerChar :: "char \<Rightarrow> char" where
  "toLowerChar c =
     (case map_of (zip upper_letters lower_letters) c of None \<Rightarrow> c | Some l \<Rightarrow> l)"

definition KELVIN_SIGN :: string where
  "KELVIN_SIGN = [CHR 0xE2, CHR 0x84, CHR 0xAA]"

definition CAPITAL_I_WITH_DOT :: string where
  "CAPITAL_I_WITH_DOT = [CHR 0xC4, CHR 0xB0]"

type_synonym lower_table = "string \<Rightarrow> string \<Rightarrow> string \<Rightarrow> string"

definition lower_code_point :: "lower_table \<Rightarrow> string \<Rightarrow> string \<Rightarrow> string \<Rightarrow> string" where
  "lower_code_point table before u after =
     (if u = KELVIN_SIGN then ''k''
      else if u = CAPITAL_I_WITH_DOT then [CHR ''i'', CHR 0xCC, CHR 0x87]
      else (case u of
              [c] \<Rightarrow> if is_ascii c then [toLowerChar c] else table before u after
            | _ \<Rightarrow> table before u after))"

fun lower_code_points :: "lower_table \<Rightarrow> string \<Rightarrow> string list \<Rightarrow> string list" where
  "lower_code_points table before [] = []"
| "lower_code_points table before (u # us) =
     lower_code_point table before u (concat us) # lower_code_points table (before @ u) us"

definition js_toLowerCase :: "lower_table \<Rightarrow> string \<Rightarrow> string" where
  "js_toLowerCase table s = concat (lower_code_points table [] (code_points s))"

text \<open>
  What the Unicode tables give for the code points left to the parameter: the image of a
  code point outside ASCII, other than the two above, is not empty and has no ASCII
  character in it.
\<close>

definition non_ascii_lowercase :: "lower_table \<Rightarrow> bool" where
  "non_ascii_lowercase table =
     (\<forall>before u after.
        u \<noteq> [] \<and> \<not> is_ascii (hd u) \<and> list_all is_continuation (tl u) \<and>
        u \<noteq> KELVIN_SIGN \<and> u \<noteq> CAPITAL_I_WITH_DOT \<longrightarrow>
        table before u after \<noteq> [] \<and> list_all (\<lambda>b. \<not> is_ascii b) (table before u after))"

text \<open>\<open>s.includes(t)\<close>: \<open>t\<close> occurs in \<open>s\<close> as a contiguous substring.\<close>

fun js_includes :: "string \<Rightarrow> string \<Rightarrow> bool" where
  "js_includes [] t = (t = [])"
| "js_includes (c # cs) t = (prefix t (c # cs) \<or> js_includes cs t)"

text \<open>
  \<open>trim\<close> removes the white space and line terminator code points from both ends:
  U+0009 to U+000D, U+0020, U+00A0, U+1680, U+2000 to U+200A, U+2028, U+2029, U+202F,
  U+205F, U+3000 and U+FEFF.
\<close>

definition whitespace :: "string list" where
  "whitespace =
     [[CHR 0x09], [CHR 0x0A], [CHR 0x0B], [CHR 0x0C], [CHR 0x0D], [CHR 0x20],
      [CHR 0xC2, CHR 0xA0],
      [CHR 0xE1, CHR 0x9A, CHR 0x80],
      [CHR 0xE2, CHR 0x80, CHR 0x80], [CHR 0xE2, CHR 0x80, CHR 0x81],
      [CHR 0xE2, CHR 0x80, CHR 0x82], [CHR 0xE2, CHR 0x80, CHR 0x83],
      [CHR 0xE2, CHR 0x80, CHR 0x84], [CHR 0xE2, CHR 0x80, CHR 0x85],
      [CHR 0xE2, CHR 0x80, CHR 0x86], [CHR 0xE2, CHR 0x80, CHR 0x87],
      [CHR 0xE2, CHR 0x80, CHR 0x88], [CHR 0xE2, CHR 0x80, CHR 0x89],
      [CHR 0xE2, CHR 0x80, CHR 0x8A],
      [CHR 0xE2, CHR 0x80, CHR 0xA8], [CHR 0xE2, CHR 0x80, CHR 0xA9],
      [CHR 0xE2, CHR 0x80, CHR 0xAF],
      [CHR 0xE2, CHR 0x81, CHR 0x9F],
      [CHR 0xE3, CHR 0x80, CHR 0x80],
      [CHR 0xEF, CHR 0xBB, CHR 0xBF]]"

text \<open>
  Removing from the front every leading byte sequence that is in \<open>ws\<close> (sequences of
  one, two or three bytes).
\<close>

fun strip_leading :: "string list \<Rightarrow> string \<Rightarrow> string" where
  "strip_leading ws (a # b # c # s) =
     (if [a] \<in> set ws then strip_leading ws (b # c # s)
      else if [a, b] \<in> set ws then strip_leading ws (c # s)
      else if [a, b, c] \<in> set ws then strip_leading ws s
      else a # b # c # s)"
| "strip_leading ws [a, b] =
     (if [a] \<in> set ws then strip_leading ws [b]
      else if [a, b] \<in> set ws then []
      else [a, b])"
| "strip_leading ws [a] = (if [a] \<in> set ws then [] else [a])"
| "strip_leading ws [] = []"

definition js_trim :: "string \<Rightarrow> string" where
  "js_trim s = rev (strip_leading (map rev whitespace) (rev (strip_leading whitespace s)))"

text \<open>
  \<open>s.split(sep)\<close> for a one-character separator; the result always has at least one
  element. \<open>xs[i]\<close> on an array is \<open>undefined\<close> (\<open>None\<close>) out of range.
\<close>

fun js_split :: "char \<Rightarrow> string \<Rightarrow> string list" where
  "js_split sep [] = [[]]"
| "js_split sep (c # cs) =
     (if c = sep then [] # js_split sep cs
      else (case js_split sep cs of
              [] \<Rightarrow> [[c]]
            | w # ws \<Rightarrow> (c # w) # ws))"

definition js_index :: "'a list \<Rightarrow> nat \<Rightarrow> 'a option" where
  "js_index xs i = (if i < length xs then Some (xs ! i) else None)"

text \<open>
  \<open>x || d\<close> on an optional string: \<open>undefined\<close>, \<open>null\<close> and the empty string are
  falsy. \<open>${x}\<close> in a template literal renders \<open>undefined\<close> as the word.
\<close>

definition falsy :: "string option \<Rightarrow> bool" where
  "falsy x = (x = None \<or> x = Some [])"

definition or_default :: "string option \<Rightarrow> string \<Rightarrow> string" where
  "or_default x d = (case x of None \<Rightarrow> d | Some s \<Rightarrow> if s = [] then d else s)"

definition js_template :: "string option \<Rightarrow> string" where
  "js_template x = (case x of None \<Rightarrow> ''undefined'' | Some s \<Rightarrow> s)"

text \<open>
  A multi-line template literal is given as the list of its lines; \<open>template_lines\<close>
  joins them with the newline character.
\<close>

fun template_lines :: "string list \<Rightarrow> string" where
  "template_lines [] = []"
| "template_lines [l] = l"
| "template_lines (l # ls) = l @ ''\<newline>'' @ template_lines ls"

text \<open>A thrown value: an \<open>Error\<close> with its message.\<close>

datatype js_error = Error string

subsection \<open>The generative service (library @google/genai)\<close>

text \<open>
  The parts of the library's request and response types that the code reads or writes.
  The library calls a part's text \<open>text\<close>; it is \<open>partText\<close> here, the name
  \<open>text\<close> being kept for the repository's own \<open>ChatMessage\<close>. A response's
  \<open>text\<close> accessor is \<open>responseText\<close>. The \<open>temperature\<close> is kept as the decimal
  text of the source.
\<close>

record Blob =
  mimeType :: "string option"
  data :: "string option"

record Part =
  inlineData :: "Blob option"
  partText :: "string option"

datatype Schema = STRING | OBJECT "(string \<times> Schema) list"

record ImageConfig =
  imageSize :: string
  aspectRatio :: string

record GenerateContentConfig =
  responseMimeType :: "string option"
  responseSchema :: "Schema option"
  systemInstruction :: "string option"
  temperature :: "string option"
  imageConfig :: "ImageConfig option"

record GenerateContentParameters =
  model :: string
  contents :: "Part list"
  config :: GenerateContentConfig

record Content =
  parts :: "Part list option"

record Candidate =
  content :: "Content option"

record GenerateContentResponse =
  responseText :: "string option"
  candidates :: "Candidate list option"

text \<open>
  What a streamed send gives: the call itself is rejected, or a stream delivers chunks in
  order and then either completes (\<open>None\<close>) or fails (\<open>Some e\<close>).
\<close>

datatype StreamResult =
  SendRejected js_error
| Stream "GenerateContentResponse list" "js_error option"

record Chat =
  chat_model :: string
  chat_config :: GenerateContentConfig

text \<open>\<open>interface AnalysisResult\<close>, as \<open>JSON.parse\<close> delivers it: \<open>detectedSpecs\<close> is a
  JSON object from field names to strings (every field optional), read by the code with
  \<open>?.\<close>, so it may itself be absent.\<close>

type_synonym PartialGuitarSpecs = "string \<rightharpoonup> string"

record AnalysisResult =
  detectedSpecs :: "PartialGuitarSpecs option"
  luthierNotes :: string

text \<open>
  The environment of the application: the credential of \<open>process.env\<close>, the remote
  \<open>generateContent\<close> call (it answers or throws), \<open>JSON.parse\<close> at the type
  \<open>AnalysisResult\<close>, the session's \<open>sendMessageStream\<close>, the browser's
  \<open>FileReader\<close> and the lower-case images of the Unicode tables.
\<close>

record File =
  file_type :: string
  file_contents :: string

record Env =
  API_KEY :: "string option"
  generateContent :: "GenerateContentParameters \<Rightarrow> js_error + GenerateContentResponse"
  JSON_parse :: "string \<Rightarrow> js_error + AnalysisResult"
  sendMessageStream :: "Chat \<Rightarrow> string \<Rightarrow> StreamResult"
  readAsDataURL :: "File \<Rightarrow> js_error + string"
  unicode_lower :: lower_table

text \<open>
  What the application does that is visible outside: the calls of the service-layer
  functions and the requests that reach the remote service, in order.
\<close>

datatype Event =
  Call_analyzeGuitarImage "string option"
| Call_generateLutheriePrompt "string option" GuitarSpecs string
| Call_generateModifiedGuitarImage string
| Request GenerateContentParameters

section \<open>The service layer (services/geminiService.ts)\<close>

definition getAiClient :: "Env \<Rightarrow> js_error + string" where
  "getAiClient env =
     (case API_KEY env of
        None \<Rightarrow> Inl (Error ''API Key not found in environment variables'')
      | Some apiKey \<Rightarrow>
          if apiKey = [] then Inl (Error ''API Key not found in environment variables'')
          else Inr apiKey)"

text \<open>
  \<open>fileToGenerativePart\<close>: the data URL the reader delivers, cut after its first comma
  (\<open>split(',')[1]\<close>, which is \<open>undefined\<close> when there is no comma); a reader error
  rejects the promise.
\<close>

definition fileToGenerativePart :: "Env \<Rightarrow> File \<Rightarrow> js_error + string option" where
  "fileToGenerativePart env file =
     (case readAsDataURL env file of
        Inl e \<Rightarrow> Inl e
      | Inr base64String \<Rightarrow> Inr (js_index (js_split CHR '','' base64String) 1))"

subsection \<open>analyzeGuitarImage\<close>

definition analysis_prompt :: string where
  "analysis_prompt = template_lines
   ['''',
    ''    Act as an expert Luthier.'',
    ''    Analiza la imagen adjunta bajo la matriz t'' @ [CHR 0xC3, CHR 0xA9] @ ''cnica de est'' @ [CHR 0xC3, CHR 0xA1] @ ''ndares industriales. Identifica:'',
    ''    1. Tipo de cuerpo y posible madera base (basado en la veta/color).'',
    ''    2. Configuraci'' @ [CHR 0xC3, CHR 0xB3] @ ''n de pastillas (Single-coil, Humbucker, P-90).'',
    ''    3. Tipo de puente y construcci'' @ [CHR 0xC3, CHR 0xB3] @ ''n del m'' @ [CHR 0xC3, CHR 0xA1] @ ''stil (Bolt-on vs Set-neck).'',
    ''    4. Dime qu'' @ [CHR 0xC3, CHR 0xA9] @ '' 'Filosof'' @ [CHR 0xC3, CHR 0xAD] @ ''a' sigue esta guitarra: '' @ [CHR 0xC2, CHR 0xBF] @ ''Modular (Fender), Artesanal (Gibson) o Alto Rendimiento (Ibanez/Superstrat)?'',
    ''    '',
    ''    Return a JSON object with the following structure:'',
    ''    {'',
    ''      \"detectedSpecs\": {'',
    ''        \"bodyWood\": \"Probable wood (e.g. Mahogany, Ash, Alder)\",'',
    ''        \"bridge\": \"Bridge type\",'',
    ''        \"pickups\": \"Pickup config\",'',
    ''        \"fretboard\": \"Fretboard material\",'',
    ''        \"construction\": \"Bolt-on or Set-neck\",'',
    ''        \"philosophy\": \"Modular (Fender), Artesanal (Gibson) or Alto Rendimiento\"'',
    ''      },'',
    ''      \"luthierNotes\": \"A brief technical analysis (max 2 sentences) describing the guitar's likely tonal characteristics based on visual evidence.\"'',
    ''    }'',
    ''  '']"

definition analysis_request :: "string option \<Rightarrow> GenerateContentParameters" where
  "analysis_request base64Image =
     \<lparr>model = ''gemini-3-flash-preview'',
      contents =
        [\<lparr>inlineData = Some \<lparr>mimeType = Some ''image/jpeg'', data = base64Image\<rparr>, partText = None\<rparr>,
         \<lparr>inlineData = None, partText = Some analysis_prompt\<rparr>],
      config =
        \<lparr>responseMimeType = Some ''application/json'',
         responseSchema = Some (OBJECT
           [(''detectedSpecs'', OBJECT
               [(''bodyWood'', STRING), (''bridge'', STRING), (''pickups'', STRING),
                (''fretboard'', STRING), (''construction'', STRING), (''philosophy'', STRING)]),
            (''luthierNotes'', STRING)]),
         systemInstruction = None, temperature = None, imageConfig = None\<rparr>\<rparr>"

text \<open>
  Every service function returns its result (\<open>Inl\<close>: the error it throws) together with
  the requests it sent. The \<open>catch\<close> blocks of the source log and rethrow, so an error of
  the remote call, of the empty-text check or of \<open>JSON.parse\<close> is the function's error.
\<close>

definition analyzeGuitarImage :: "Env \<Rightarrow> string option \<Rightarrow> (js_error + AnalysisResult) \<times> Event list" where
  "analyzeGuitarImage env base64Image =
     (case getAiClient env of
        Inl e \<Rightarrow> (Inl e, [])
      | Inr ai \<Rightarrow>
          (case generateContent env (analysis_request base64Image) of
             Inl e \<Rightarrow> Inl e
           | Inr response \<Rightarrow>
               (case responseText response of
                  None \<Rightarrow> Inl (Error ''No analysis received'')
                | Some t \<Rightarrow>
                    if t = [] then Inl (Error ''No analysis received'') else JSON_parse env t),
           [Request (analysis_request base64Image)]))"

subsection \<open>generateLutheriePrompt\<close>

definition isFrankenstein :: "lower_table \<Rightarrow> string \<Rightarrow> bool" where
  "isFrankenstein table notes_text =
     (js_includes (js_toLowerCase table notes_text) ''frankenstein'' \<or>
      js_includes (js_toLowerCase table notes_text) ''relic'' \<or>
      js_includes (js_toLowerCase table notes_text) ''hybrid'')"

definition philosophyInstruction :: "lower_table \<Rightarrow> string \<Rightarrow> string \<Rightarrow> string" where
  "philosophyInstruction table notes_text originalPhilosophy =
     (if isFrankenstein table notes_text
      then ''Create a 'High Performance Hybrid' aesthetic. Act as a Custom Shop Luthier blending the original shape with aggressive, modern, or distressed (relic) modifications. Deviate from the original vintage philosophy to achieve a unique 'Frankenstein' super-mod look.''
      else ''Ensure the aesthetic respects the original instrument's philosophy ('' @ originalPhilosophy @ '') unless the modification explicitly contradicts it.'')"

definition systemInstruction_prompt :: string where
  "systemInstruction_prompt = template_lines
   ['''',
    ''    Act as an expert Digital Luthier and Product Architect. '',
    ''    Your goal is to write a highly technical, photorealistic image generation prompt based on requested modifications to a guitar.'',
    ''    You must output ONLY the prompt text in English.'',
    ''  '']"

text \<open>
  The lines of the \<open>userPrompt\<close> template, with its interpolations; \<open>notes_text\<close>
  is the local constant \<open>notes\<close> of the source (\<open>targetSpecs.notes || ""\<close>).
\<close>

definition userPrompt_lines :: "lower_table \<Rightarrow> GuitarSpecs \<Rightarrow> string \<Rightarrow> string \<Rightarrow> string list" where
  "userPrompt_lines table targetSpecs originalPhilosophy notes_text =
   ['''',
    ''    Context: The user wants to modify the guitar shown in the attached image.'',
    ''    '',
    ''    Original Instrument Philosophy: '' @ originalPhilosophy,
    ''    '',
    ''    Requested Modifications (Target Specs):'',
    ''    - Body Material: '' @ BodyWood_value (bodyWood targetSpecs),
    ''    - Fretboard: '' @ FretboardMaterial_value (fretboard targetSpecs),
    ''    - Bridge System: '' @ BridgeSystem_value (bridge targetSpecs),
    ''    - Pickup Config: '' @ PickupConfig_value (pickups targetSpecs),
    ''    - Neck Profile: '' @ NeckProfile_value (neckProfile targetSpecs),
    ''    - Additional Notes: '' @ notes_text,
    '''',
    ''    Action: Generate an ultra-detailed technical visual description to be used as an image generation prompt (e.g. for Stable Diffusion or Imagen).'',
    ''    '',
    ''    Mandatory Requirements:'',
    ''    1. LIGHTING & ANGLE: Maintain the ORIGINAL lighting, angle, and perspective of the reference image exactly.'',
    ''    2. MATERIAL PHYSICS: Describe the specific wood grain and finish based on lutherie taxonomy (e.g., if Mahogany -> \"porous reddish-brown grain with nitrocellulose fill\"; if Ash -> \"deep open pore grain\").'',
    ''    3. MECHANICS: '',
    ''       - If Evertune is selected, describe it as \"modern chrome Evertune bridge system with individual saddle modules and spring tensioners\".'',
    ''       - If Floyd Rose, describe \"double-locking tremolo system with fine tuners and locking nut\".'',
    ''    4. PHILOSOPHY: '' @ philosophyInstruction table notes_text originalPhilosophy,
    ''    '',
    ''    Output Format: '',
    ''    A single paragraph English prompt starting with \"A photorealistic 8k close-up shot of a modified electric guitar...\". '',
    ''    Focus heavily on textures (wood pores, metal sheen, plastic aging).'',
    ''  '']"

definition userPrompt :: "lower_table \<Rightarrow> GuitarSpecs \<Rightarrow> string \<Rightarrow> string" where
  "userPrompt table targetSpecs originalPhilosophy =
     (let notes_text = or_default (notes targetSpecs) [] in
      template_lines (userPrompt_lines table targetSpecs originalPhilosophy notes_text))"

definition lutherie_request ::
  "lower_table \<Rightarrow> string option \<Rightarrow> GuitarSpecs \<Rightarrow> string \<Rightarrow> GenerateContentParameters" where
  "lutherie_request table base64Original targetSpecs originalPhilosophy =
     \<lparr>model = ''gemini-3-pro-preview'',
      contents =
        [\<lparr>inlineData = Some \<lparr>mimeType = Some ''image/jpeg'', data = base64Original\<rparr>, partText = None\<rparr>,
         \<lparr>inlineData = None, partText = Some (userPrompt table targetSpecs originalPhilosophy)\<rparr>],
      config =
        \<lparr>responseMimeType = None, responseSchema = None,
         systemInstruction = Some systemInstruction_prompt, temperature = Some ''0.7'',
         imageConfig = None\<rparr>\<rparr>"

text \<open>
  The third parameter has the default value \<open>"Standard Industry Design"\<close>, used when the
  caller passes nothing (\<open>None\<close>).
\<close>

definition generateLutheriePrompt ::
  "Env \<Rightarrow> string option \<Rightarrow> GuitarSpecs \<Rightarrow> string option \<Rightarrow> (js_error + string) \<times> Event list" where
  "generateLutheriePrompt env base64Original targetSpecs originalPhilosophy_arg =
     (let originalPhilosophy =
            (case originalPhilosophy_arg of None \<Rightarrow> ''Standard Industry Design'' | Some p \<Rightarrow> p)
      in case getAiClient env of
           Inl e \<Rightarrow> (Inl e, [])
         | Inr ai \<Rightarrow>
             (case generateContent env (lutherie_request (unicode_lower env) base64Original targetSpecs originalPhilosophy) of
                Inl e \<Rightarrow> Inl e
              | Inr response \<Rightarrow> Inr (or_default (responseText response) ''Failed to generate prompt.''),
              [Request (lutherie_request (unicode_lower env) base64Original targetSpecs originalPhilosophy)]))"

subsection \<open>generateModifiedGuitarImage\<close>

definition image_request :: "string \<Rightarrow> GenerateContentParameters" where
  "image_request technicalPrompt =
     \<lparr>model = ''gemini-3-pro-image-preview'',
      contents = [\<lparr>inlineData = None, partText = Some technicalPrompt\<rparr>],
      config =
        \<lparr>responseMimeType = None, responseSchema = None, systemInstruction = None,
         temperature = None,
         imageConfig = Some \<lparr>imageSize = ''1K'', aspectRatio = ''1:1''\<rparr>\<rparr>\<rparr>"

text \<open>\<open>response.candidates?.[0]?.content?.parts\<close>\<close>

definition response_parts :: "GenerateContentResponse \<Rightarrow> Part list option" where
  "response_parts response =
     (case candidates response of
        None \<Rightarrow> None
      | Some cs \<Rightarrow>
          (case js_index cs 0 of
             None \<Rightarrow> None
           | Some c \<Rightarrow> (case content c of None \<Rightarrow> None | Some ct \<Rightarrow> parts ct)))"

text \<open>
  The \<open>for\<close> loop over the parts: the first part with an \<open>inlineData\<close> whose
  \<open>data\<close> is truthy returns the data URI; running off the end throws.
\<close>

fun find_image :: "Part list \<Rightarrow> js_error + string" where
  "find_image [] = Inl (Error ''Image data not found in response'')"
| "find_image (part # rest) =
     (case inlineData part of
        None \<Rightarrow> find_image rest
      | Some b \<Rightarrow>
          if falsy (data b) then find_image rest
          else Inr (''data:'' @ js_template (mimeType b) @ '';base64,'' @ js_template (data b)))"

definition generateModifiedGuitarImage :: "Env \<Rightarrow> string \<Rightarrow> (js_error + string) \<times> Event list" where
  "generateModifiedGuitarImage env technicalPrompt =
     (case getAiClient env of
        Inl e \<Rightarrow> (Inl e, [])
      | Inr ai \<Rightarrow>
          (case generateContent env (image_request technicalPrompt) of
             Inl e \<Rightarrow> Inl e
           | Inr response \<Rightarrow>
               (case response_parts response of
                  None \<Rightarrow> Inl (Error ''No image generated'')
                | Some ps \<Rightarrow> find_image ps),
           [Request (image_request technicalPrompt)]))"

subsection \<open>createLuthierChatSession\<close>

definition systemInstruction_chat :: string where
  "systemInstruction_chat = template_lines
   ['''',
    ''    You are an Expert Luthier and Guitar Technician.'',
    ''    Your role is to advise users on guitar specifications, tonewoods, and mechanics.'',
    ''    '',
    ''    KNOWLEDGE BASE (STRICT ADHERENCE):'',
    ''    '',
    ''    1. TONEWOODS (Material Taxonomy):'',
    ''       - Mahogany: Warm, low-mid focus, high density.'',
    ''       - Ash (Fresno): Bright, scooped mids, 'Twang', lightweight.'',
    ''       - Alder (Aliso): Balanced, the industry standard neutral.'',
    ''       - Maple (Arce): EXTREME ATTACK, definition in transients, snap.'',
    ''       - Ebony: Immediate response, glass-like reflection.'',
    ''       '',
    ''    2. GEOMETRY (Neck Profiles):'',
    ''       - 50s Vintage (U/Baseball Bat): Thick mass, maximizes mechanical coupling and sustain. Ideal for vintage feel.'',
    ''       - Modern C: Standard ergonomic.'',
    ''       - Slim Taper: Fast, low mass.'',
    ''       '',
    ''    3. SCALES:'',
    ''       - 25.5\": High tension, snap (Fender style).'',
    ''       - 24.75\": Lower tension, easier bends, warmer (Gibson style).'',
    '''',
    ''    BEHAVIOR:'',
    ''    - Answer questions directly and concisely.'',
    ''    - If a user asks for \"Attack\" or \"Definition\", ALWAYS recommend MAPLE (Arce).'',
    ''    - If a user asks for \"Vintage\" feel, recommend 50s profiles.'',
    ''    - Use technical terminology (transients, coupling, frequency response).'',
    ''  '']"

definition createLuthierChatSession :: "Env \<Rightarrow> js_error + Chat" where
  "createLuthierChatSession env =
     (case getAiClient env of
        Inl e \<Rightarrow> Inl e
      | Inr ai \<Rightarrow>
          Inr \<lparr>chat_model = ''gemini-3-flash-preview'',
               chat_config =
                 \<lparr>responseMimeType = None, responseSchema = None,
                  systemInstruction = Some systemInstruction_chat, temperature = Some ''0.5'',
                  imageConfig = None\<rparr>\<rparr>)"

section \<open>The interaction shell (App.tsx)\<close>

datatype Role = Role_user | Role_model

record ChatMessage =
  role :: Role
  "text" :: string

datatype Tab = configurator | advisory

text \<open>
  The state of the \<open>App\<close> component: one field for each \<open>useState\<close> cell, under the
  cell's name. A \<open>null\<close> cell is \<open>None\<close>.
\<close>

record AppState =
  activeTab :: Tab
  originalImage :: "string option"
  rawFile :: "File option"
  isAnalyzing :: bool
  isGenerating :: bool
  analysisResult :: "AnalysisResult option"
  generatedPrompt :: "string option"
  generatedImage :: "string option"
  error :: "string option"
  chatSession :: "Chat option"
  chatHistory :: "ChatMessage list"
  chatInput :: string
  isChatting :: bool
  specs :: GuitarSpecs

text \<open>The initial values given to \<open>useState\<close>.\<close>

definition initial_specs :: GuitarSpecs where
  "initial_specs =
     \<lparr>bodyWood = BodyWood.ALDER,
      neckProfile = NeckProfile.MODERN_C,
      fretboard = FretboardMaterial.ROSEWOOD,
      bridge = BridgeSystem.TUNE_O_MATIC,
      pickups = PickupConfig.HH,
      scaleLength = ''24.75\"'',
      fretboardRadius = ''12\"'',
      notes = Some [],
      construction = None,
      philosophy = None\<rparr>"

definition initial_state :: AppState where
  "initial_state =
     \<lparr>activeTab = configurator,
      originalImage = None,
      rawFile = None,
      isAnalyzing = False,
      isGenerating = False,
      analysisResult = None,
      generatedPrompt = None,
      generatedImage = None,
      error = None,
      chatSession = None,
      chatHistory = [],
      chatInput = [],
      isChatting = False,
      specs = initial_specs\<rparr>"

text \<open>
  Each handler below is a function from the state in which it starts to the state in which
  it ends, together with the events it caused. A handler runs to its end (through its
  \<open>await\<close>s) before the next one starts: the shell issues one operation at a time.
\<close>

text \<open>The effect run on mount: open the chat session and show the greeting.\<close>

definition mount :: "Env \<Rightarrow> AppState \<Rightarrow> AppState" where
  "mount env st =
     (case createLuthierChatSession env of
        Inl e \<Rightarrow> st
      | Inr session \<Rightarrow>
          st\<lparr>chatSession := Some session,
             chatHistory :=
               [\<lparr>role = Role_model,
                 text = ''I am your Digital Luthier. Ask me about tonewood physics, neck geometry, or hardware mechanics.''\<rparr>]\<rparr>)"

definition performAnalysis :: "Env \<Rightarrow> string option \<Rightarrow> AppState \<Rightarrow> AppState \<times> Event list" where
  "performAnalysis env base64Data st =
     (let st1 = st\<lparr>isAnalyzing := True\<rparr>;
          (res, reqs) = analyzeGuitarImage env base64Data;
          st2 = (case res of
                   Inr result \<Rightarrow> st1\<lparr>analysisResult := Some result\<rparr>
                 | Inl err \<Rightarrow>
                     st1\<lparr>error := Some ''Failed to analyze image acoustics. Please check API Key.''\<rparr>)
      in (st2\<lparr>isAnalyzing := False\<rparr>, Call_analyzeGuitarImage base64Data # reqs))"

text \<open>
  \<open>handleFileUpload\<close>: no file selected returns at once; a reader error ends the handler
  after \<open>setRawFile\<close>; otherwise the results of the previous image are cleared and the
  analysis is started (its outcome is awaited inside \<open>performAnalysis\<close>).
\<close>

definition handleFileUpload :: "Env \<Rightarrow> File option \<Rightarrow> AppState \<Rightarrow> AppState \<times> Event list" where
  "handleFileUpload env file_opt st =
     (case file_opt of
        None \<Rightarrow> (st, [])
      | Some file \<Rightarrow>
          (let st1 = st\<lparr>rawFile := Some file\<rparr> in
           case fileToGenerativePart env file of
             Inl e \<Rightarrow> (st1, [])
           | Inr base64 \<Rightarrow>
               performAnalysis env base64
                 (st1\<lparr>originalImage := Some (''data:'' @ file_type file @ '';base64,'' @ js_template base64),
                      generatedImage := None,
                      generatedPrompt := None,
                      analysisResult := None,
                      error := None,
                      activeTab := configurator\<rparr>)))"

definition applyFrankensteinPreset :: "AppState \<Rightarrow> AppState" where
  "applyFrankensteinPreset st =
     st\<lparr>specs := (specs st)
          \<lparr>bridge := BridgeSystem.FLOYD_ROSE,
           pickups := PickupConfig.HSS,
           bodyWood := BodyWood.ASH,
           notes := Some ''Custom Shop 'Frankenstein' mod. Gibson style Humbucker in bridge. Heavy relic aged Nitrocellulose finish. High performance hybrid aesthetic.''\<rparr>\<rparr>"

text \<open>
  \<open>handleSimulate\<close>. \<open>specs\<close> is always an object, so only \<open>!originalImage\<close>
  (the cell is \<open>null\<close> or the empty string) can take the early return. The
  \<open>catch\<close> and \<open>finally\<close> steps are written out in each branch.
\<close>

definition handleSimulate :: "Env \<Rightarrow> AppState \<Rightarrow> AppState \<times> Event list" where
  "handleSimulate env st =
     (case originalImage st of
        None \<Rightarrow> (st, [])
      | Some img \<Rightarrow>
        if img = [] then (st, [])
        else
        (let st1 = st\<lparr>isGenerating := True, error := None, generatedImage := None,
                      generatedPrompt := None\<rparr>;
             base64Data = js_index (js_split CHR '','' img) 1;
             philosophy =
               or_default
                 (case analysisResult st of
                    None \<Rightarrow> None
                  | Some r \<Rightarrow> (case detectedSpecs r of None \<Rightarrow> None | Some d \<Rightarrow> d ''philosophy''))
                 ''Standard Industry Design'';
             (res1, ev1) = generateLutheriePrompt env base64Data (specs st) (Some philosophy);
             call1 = Call_generateLutheriePrompt base64Data (specs st) philosophy
         in case res1 of
              Inl err \<Rightarrow>
                (st1\<lparr>error := Some ''Simulation failed. Ensure you have a valid Gemini API Key enabled.'',
                     isGenerating := False\<rparr>,
                 call1 # ev1)
            | Inr prompt \<Rightarrow>
                (let st2 = st1\<lparr>generatedPrompt := Some prompt\<rparr>;
                     (res2, ev2) = generateModifiedGuitarImage env prompt;
                     call2 = Call_generateModifiedGuitarImage prompt
                 in case res2 of
                      Inl err \<Rightarrow>
                        (st2\<lparr>error := Some ''Simulation failed. Ensure you have a valid Gemini API Key enabled.'',
                             isGenerating := False\<rparr>,
                         call1 # ev1 @ call2 # ev2)
                    | Inr newImage \<Rightarrow>
                        (st2\<lparr>generatedImage := Some newImage, isGenerating := False\<rparr>,
                         call1 # ev1 @ call2 # ev2))))"

text \<open>
  \<open>newHistory[newHistory.length - 1] = m\<close> on a copy of the history: on an empty array
  the index is \<open>-1\<close>, which adds no element.
\<close>

definition set_last :: "'a list \<Rightarrow> 'a \<Rightarrow> 'a list" where
  "set_last xs m = (if xs = [] then xs else xs[length xs - 1 := m])"

text \<open>
  The \<open>for await\<close> loop over the chunks that arrive: \<open>fullResponse\<close> grows by each
  chunk's text (\<open>c.text || ""\<close>) and replaces the text of the last message.
\<close>

fun stream_loop :: "GenerateContentResponse list \<Rightarrow> string \<Rightarrow> ChatMessage list \<Rightarrow> ChatMessage list" where
  "stream_loop [] fullResponse history = history"
| "stream_loop (c # cs) fullResponse history =
     (let fullResponse' = fullResponse @ or_default (responseText c) []
      in stream_loop cs fullResponse'
           (set_last history \<lparr>role = Role_model, text = fullResponse'\<rparr>))"

definition handleSendMessage :: "Env \<Rightarrow> AppState \<Rightarrow> AppState" where
  "handleSendMessage env st =
     (case chatSession st of
        None \<Rightarrow> st
      | Some session \<Rightarrow>
        if js_trim (chatInput st) = [] then st
        else
        (let userMsg = chatInput st;
             st1 = st\<lparr>chatInput := [],
                      chatHistory := chatHistory st @ [\<lparr>role = Role_user, text = userMsg\<rparr>],
                      isChatting := True\<rparr>
         in case sendMessageStream env session userMsg of
              SendRejected e \<Rightarrow>
                st1\<lparr>chatHistory := chatHistory st1 @
                       [\<lparr>role = Role_model, text = ''Connection to Luthier Intelligence Interrupted.''\<rparr>],
                    isChatting := False\<rparr>
            | Stream chunks failure \<Rightarrow>
                (let placeholder = chatHistory st1 @ [\<lparr>role = Role_model, text = []\<rparr>];
                     streamed = stream_loop chunks [] placeholder
                 in case failure of
                      None \<Rightarrow> st1\<lparr>chatHistory := streamed, isChatting := False\<rparr>
                    | Some e \<Rightarrow>
                        st1\<lparr>chatHistory := streamed @
                               [\<lparr>role = Role_model, text = ''Connection to Luthier Intelligence Interrupted.''\<rparr>],
                            isChatting := False\<rparr>)))"

section \<open>The trigger rule in the words of the specification\<close>

text \<open>
  The specification describes the rule as a case-insensitive substring test of the notes
  against a fixed set of trigger words. A code point is a given letter ignoring case when
  it is that letter, or the two are the capital and the small form of one ASCII letter,
  or it is the Kelvin sign and the letter is \<open>k\<close> or \<open>K\<close> (the Kelvin sign is a
  capital form of \<open>k\<close>). A word is contained ignoring case when a run of consecutive
  code points of the text matches it letter by letter.
\<close>

definition same_letter_ignoring_case :: "string \<Rightarrow> char \<Rightarrow> bool" where
  "same_letter_ignoring_case u d =
     (u = [d] \<or>
      (length u = 1 \<and> ((hd u, d) \<in> set (zip upper_letters lower_letters) \<or>
                        (d, hd u) \<in> set (zip upper_letters lower_letters))) \<or>
      (u = KELVIN_SIGN \<and> (d = CHR ''k'' \<or> d = CHR ''K'')))"

definition contains_ignoring_case :: "string \<Rightarrow> string \<Rightarrow> bool" where
  "contains_ignoring_case s w =
     (\<exists>us xs vs. code_points s = us @ xs @ vs \<and> list_all2 same_letter_ignoring_case xs w)"

definition trigger_words :: "string list" where
  "trigger_words = [''frankenstein'', ''relic'', ''hybrid'']"

definition has_trigger_word :: "string \<Rightarrow> bool" where
  "has_trigger_word s = list_ex (contains_ignoring_case s) trigger_words"

section \<open>The image payloads of a response, in the words of the specification\<close>

text \<open>
  The inline image payloads a render response carries: the \<open>inlineData\<close> of the parts
  of its first candidate whose \<open>data\<close> is present and not empty, in order.
\<close>

definition inline_images :: "GenerateContentResponse \<Rightarrow> Blob list" where
  "inline_images response =
     (case response_parts response of
        None \<Rightarrow> []
      | Some ps \<Rightarrow> filter (\<lambda>b. \<not> falsy (data b)) (List.map_filter inlineData ps))"

section \<open>Shapes of code points and of their lower-case images\<close>

text \<open>
  A code point of a string is one ASCII character, or a byte outside ASCII followed by
  continuation bytes. Its lower-case image is one ASCII character, or the image of the
  capital I with dot above, or a non-empty text with no ASCII character.
\<close>

definition code_point_shape :: "string \<Rightarrow> bool" where
  "code_point_shape u =
     ((\<exists>c. u = [c] \<and> is_ascii c) \<or>
      (u \<noteq> [] \<and> \<not> is_ascii (hd u) \<and> list_all is_continuation (tl u)))"

definition image_shape :: "string \<Rightarrow> bool" where
  "image_shape img =
     ((\<exists>d. img = [d] \<and> is_ascii d) \<or>
      img = [CHR ''i'', CHR 0xCC, CHR 0x87] \<or>
      (img \<noteq> [] \<and> list_all (\<lambda>b. \<not> is_ascii b) img))"

section \<open>Concrete environments and states for the examples\<close>

text \<open>
  Three environments with a credential: one whose service answers every request, one whose
  service cannot be reached, and one whose service answers with an empty response.
\<close>

definition example_analysis_text :: string where
  "example_analysis_text =
     ''{\"detectedSpecs\":{\"philosophy\":\"Artesanal (Gibson)\"},\"luthierNotes\":\"Warm, sustained tone.\"}''"

definition example_analysis :: AnalysisResult where
  "example_analysis =
     \<lparr>detectedSpecs = Some [''philosophy'' \<mapsto> ''Artesanal (Gibson)''],
      luthierNotes = ''Warm, sustained tone.''\<rparr>"

definition example_JSON_parse :: "string \<Rightarrow> js_error + AnalysisResult" where
  "example_JSON_parse t =
     (if t = example_analysis_text then Inr example_analysis
      else Inl (Error ''Unexpected token''))"

definition example_image_response :: GenerateContentResponse where
  "example_image_response =
     \<lparr>responseText = None,
      candidates = Some
        [\<lparr>content = Some
           \<lparr>parts = Some
              [\<lparr>inlineData = None, partText = Some ''Here is the render.''\<rparr>,
               \<lparr>inlineData = Some \<lparr>mimeType = Some ''image/png'', data = Some ''iVBORw0KGgo=''\<rparr>,
                partText = None\<rparr>]\<rparr>\<rparr>]\<rparr>"

definition example_generateContent ::
  "GenerateContentParameters \<Rightarrow> js_error + GenerateContentResponse" where
  "example_generateContent req =
     (if model req = ''gemini-3-pro-image-preview'' then Inr example_image_response
      else if model req = ''gemini-3-flash-preview''
        then Inr \<lparr>responseText = Some example_analysis_text, candidates = None\<rparr>
      else Inr \<lparr>responseText = Some ''A photorealistic 8k close-up shot of a modified electric guitar.'',
                candidates = None\<rparr>)"

definition example_readAsDataURL :: "File \<Rightarrow> js_error + string" where
  "example_readAsDataURL file = Inr (''data:'' @ file_type file @ '';base64,QUJD'')"

definition example_interrupted_stream :: "Chat \<Rightarrow> string \<Rightarrow> StreamResult" where
  "example_interrupted_stream session message =
     Stream [\<lparr>responseText = Some ''Map'', candidates = None\<rparr>] (Some (Error ''stream closed''))"

text \<open>
  A fragment of the Unicode tables: the capital E with acute U+00C9 becomes the small one
  U+00E9, every other code point is kept.
\<close>

definition example_unicode_lower :: lower_table where
  "example_unicode_lower before u after =
     (if u = [CHR 0xC3, CHR 0x89] then [CHR 0xC3, CHR 0xA9] else u)"

definition env_answering :: Env where
  "env_answering =
     \<lparr>API_KEY = Some ''test-key'',
      generateContent = example_generateContent,
      JSON_parse = example_JSON_parse,
      sendMessageStream = example_interrupted_stream,
      readAsDataURL = example_readAsDataURL,
      unicode_lower = example_unicode_lower\<rparr>"

definition env_unreachable :: Env where
  "env_unreachable =
     \<lparr>API_KEY = Some ''test-key'',
      generateContent = (\<lambda>req. Inl (Error ''Failed to fetch'')),
      JSON_parse = example_JSON_parse,
      sendMessageStream = (\<lambda>session message. SendRejected (Error ''Failed to fetch'')),
      readAsDataURL = example_readAsDataURL,
      unicode_lower = example_unicode_lower\<rparr>"

definition env_silent :: Env where
  "env_silent =
     \<lparr>API_KEY = Some ''test-key'',
      generateContent = (\<lambda>req. Inr \<lparr>responseText = None, candidates = None\<rparr>),
      JSON_parse = example_JSON_parse,
      sendMessageStream = example_interrupted_stream,
      readAsDataURL = example_readAsDataURL,
      unicode_lower = example_unicode_lower\<rparr>"

definition example_file :: File where
  "example_file = \<lparr>file_type = ''image/png'', file_contents = ''ABC''\<rparr>"

text \<open>The state after an image was chosen, and a state with a question typed in the chat.\<close>

definition uploaded_state :: AppState where
  "uploaded_state = initial_state\<lparr>originalImage := Some ''data:image/png;base64,QUJD''\<rparr>"

definition asking_state :: AppState where
  "asking_state = (mount env_answering initial_state)\<lparr>chatInput := ''What wood gives the best attack?''\<rparr>"

section \<open>Properties of the characteristic tables\<close>

lemma wood_table_total:
  "\<exists>d. WOOD_CHARACTERISTICS (BodyWood_value w) = Some d \<and> d \<noteq> []"
  by (cases w) (simp_all add: WOOD_CHARACTERISTICS_def js_object_def)

lemma neck_table_total:
  "\<exists>d. NECK_CHARACTERISTICS (NeckProfile_value n) = Some d \<and> d \<noteq> []"
  by (cases n) (simp_all add: NECK_CHARACTERISTICS_def js_object_def)

lemma bridge_table_total:
  "\<exists>d. BRIDGE_MECHANICS (BridgeSystem_value b) = Some d \<and> d \<noteq> []"
  by (cases b) (simp_all add: BRIDGE_MECHANICS_def js_object_def)

lemma fretboard_table_total:
  "\<exists>d. FRETBOARD_RESPONSE (FretboardMaterial_value f) = Some d \<and> d \<noteq> []"
  by (cases f) (simp_all add: FRETBOARD_RESPONSE_def js_object_def)

text \<open>
  C7. For every member of each of the four material enumerations (body wood, neck
  profile, bridge system, fretboard material) the corresponding characteristic table has
  an entry under that member's key, and the entry's descriptive string is not empty.
\<close>

theorem C7_tables_total_nonempty:
  "(\<exists>d. WOOD_CHARACTERISTICS (BodyWood_value w) = Some d \<and> d \<noteq> []) \<and>
   (\<exists>d. NECK_CHARACTERISTICS (NeckProfile_value n) = Some d \<and> d \<noteq> []) \<and>
   (\<exists>d. BRIDGE_MECHANICS (BridgeSystem_value b) = Some d \<and> d \<noteq> []) \<and>
   (\<exists>d. FRETBOARD_RESPONSE (FretboardMaterial_value f) = Some d \<and> d \<noteq> [])"
  using wood_table_total neck_table_total bridge_table_total fretboard_table_total
  by blast

section \<open>The trigger rule: the code against the specification\<close>

lemma letters_distinct: "distinct upper_letters"
  by (simp add: upper_letters_def)

lemma letters_length: "length upper_letters = length lower_letters"
  by (simp add: upper_letters_def lower_letters_def)

lemma toLowerChar_pair:
  assumes "(c, d) \<in> set (zip upper_letters lower_letters)"
  shows "toLowerChar c = d"
proof -
  have "distinct (map fst (zip upper_letters lower_letters))"
    using letters_distinct letters_length by simp
  then have "map_of (zip upper_letters lower_letters) c = Some d"
    using assms by (rule map_of_is_SomeI)
  then show ?thesis by (simp add: toLowerChar_def)
qed

lemma pair_upper: "(c, d) \<in> set (zip upper_letters lower_letters) \<Longrightarrow> c \<in> set upper_letters"
  by (rule set_zip_leftD)

lemma pair_lower: "(c, d) \<in> set (zip upper_letters lower_letters) \<Longrightarrow> d \<in> set lower_letters"
  by (rule set_zip_rightD)

lemma toLowerChar_upper:
  assumes "c \<in> set upper_letters"
  shows "(c, toLowerChar c) \<in> set (zip upper_letters lower_letters)"
proof -
  from assms have "c \<in> fst ` set (zip upper_letters lower_letters)"
    using letters_length by (simp flip: set_map)
  then obtain d where d: "(c, d) \<in> set (zip upper_letters lower_letters)" by force
  with toLowerChar_pair[OF d] show ?thesis by simp
qed

lemma toLowerChar_other:
  assumes "c \<notin> set upper_letters"
  shows "toLowerChar c = c"
proof -
  have "map_of (zip upper_letters lower_letters) c = None"
    using assms by (auto simp: map_of_eq_None_iff dest: set_zip_leftD)
  then show ?thesis by (simp add: toLowerChar_def)
qed

lemma letters_ascii:
  "c \<in> set upper_letters \<Longrightarrow> is_ascii c"
  "c \<in> set lower_letters \<Longrightarrow> is_ascii c"
  by (auto simp: upper_letters_def lower_letters_def is_ascii_def)

lemma letters_disjoint: "c \<in> set lower_letters \<Longrightarrow> c \<notin> set upper_letters"
  by (auto simp: upper_letters_def lower_letters_def)

lemma toLowerChar_ascii: "is_ascii c \<Longrightarrow> is_ascii (toLowerChar c)"
proof (cases "c \<in> set upper_letters")
  case True
  from toLowerChar_upper[OF True] have "toLowerChar c \<in> set lower_letters" by (rule pair_lower)
  then show ?thesis by (rule letters_ascii)
next
  case False
  assume "is_ascii c"
  with toLowerChar_other[OF False] show ?thesis by simp
qed

lemma continuation_not_ascii: "is_continuation b \<Longrightarrow> \<not> is_ascii b"
  by (simp add: is_continuation_def is_ascii_def)

lemma js_includes_sublist: "js_includes s t = sublist t s"
  by (induction s) (simp_all add: sublist_Cons_right)

text \<open>The lower-case image of an ASCII character is a given small letter exactly when the
  character is that letter or its capital.\<close>

lemma toLowerChar_eq_letter:
  assumes "d \<in> set lower_letters"
  shows "(toLowerChar c = d) = (c = d \<or> (c, d) \<in> set (zip upper_letters lower_letters))"
proof
  assume eq: "toLowerChar c = d"
  show "c = d \<or> (c, d) \<in> set (zip upper_letters lower_letters)"
  proof (cases "c \<in> set upper_letters")
    case True
    from toLowerChar_upper[OF True] eq show ?thesis by simp
  next
    case False
    from toLowerChar_other[OF False] eq show ?thesis by simp
  qed
next
  assume "c = d \<or> (c, d) \<in> set (zip upper_letters lower_letters)"
  then show "toLowerChar c = d"
  proof
    assume "c = d"
    with assms show ?thesis by (simp add: toLowerChar_other letters_disjoint)
  next
    assume "(c, d) \<in> set (zip upper_letters lower_letters)"
    then show ?thesis by (rule toLowerChar_pair)
  qed
qed

lemma code_points_shape: "u \<in> set (code_points s) \<Longrightarrow> code_point_shape u"
proof (induction s rule: code_points.induct)
  case 1
  then show ?case by simp
next
  case (2 b bs)
  show ?case
  proof (cases "is_ascii b")
    case True
    with 2 show ?thesis by (auto simp: code_point_shape_def)
  next
    case False
    with 2 show ?thesis
      by (auto simp: code_point_shape_def list_all_iff dest: set_takeWhileD)
  qed
qed

lemma special_code_points:
  "\<not> is_ascii (hd KELVIN_SIGN)" "\<not> is_ascii (hd CAPITAL_I_WITH_DOT)"
  "length KELVIN_SIGN = 3" "length CAPITAL_I_WITH_DOT = 2"
  by (simp_all add: KELVIN_SIGN_def CAPITAL_I_WITH_DOT_def is_ascii_def)

lemma lower_ascii_code_point:
  "is_ascii c \<Longrightarrow> lower_code_point table before [c] after = [toLowerChar c]"
  by (simp add: lower_code_point_def KELVIN_SIGN_def CAPITAL_I_WITH_DOT_def)

lemma lower_other_code_point:
  assumes "u \<noteq> []" "\<not> is_ascii (hd u)" "u \<noteq> KELVIN_SIGN" "u \<noteq> CAPITAL_I_WITH_DOT"
  shows "lower_code_point table before u after = table before u after"
  using assms by (cases u) (auto simp: lower_code_point_def split: list.splits)

lemma lower_code_point_shape:
  assumes "non_ascii_lowercase table" "code_point_shape u"
  shows "image_shape (lower_code_point table before u after)"
proof -
  consider c where "u = [c]" "is_ascii c"
    | "u = KELVIN_SIGN" | "u = CAPITAL_I_WITH_DOT"
    | "u \<noteq> []" "\<not> is_ascii (hd u)" "list_all is_continuation (tl u)"
      "u \<noteq> KELVIN_SIGN" "u \<noteq> CAPITAL_I_WITH_DOT"
    using assms(2) unfolding code_point_shape_def by blast
  then show ?thesis
  proof cases
    case 1
    then show ?thesis
      by (simp add: lower_ascii_code_point image_shape_def toLowerChar_ascii)
  next
    case 2
    then show ?thesis by (simp add: lower_code_point_def image_shape_def is_ascii_def)
  next
    case 3
    then show ?thesis
      by (simp add: lower_code_point_def image_shape_def KELVIN_SIGN_def CAPITAL_I_WITH_DOT_def)
  next
    case 4
    from assms(1) 4 have "table before u after \<noteq> [] \<and>
        list_all (\<lambda>b. \<not> is_ascii b) (table before u after)"
      unfolding non_ascii_lowercase_def by blast
    then show ?thesis
      by (simp add: lower_other_code_point[OF 4(1,2,4,5)] image_shape_def)
  qed
qed

lemma lower_code_points_shape:
  assumes "non_ascii_lowercase table"
  shows "list_all code_point_shape us \<Longrightarrow> list_all image_shape (lower_code_points table before us)"
  by (induction us arbitrary: before) (simp_all add: lower_code_point_shape[OF assms])

text \<open>A word of ASCII letters occurs in the joined images only as a run of one-letter images.\<close>

lemma image_head_cases:
  assumes "image_shape img"
  obtains d where "img = [d]" "is_ascii d"
    | "img = [CHR ''i'', CHR 0xCC, CHR 0x87]"
    | h t where "img = h # t" "\<not> is_ascii h" "list_all (\<lambda>b. \<not> is_ascii b) t"
  using assms unfolding image_shape_def by (cases img) auto

lemma prefix_of_images:
  assumes "list_all is_ascii w" "w \<noteq> [] \<longrightarrow> last w \<noteq> CHR ''i''"
    and "list_all image_shape imgs" "prefix w (concat imgs)"
  shows "\<exists>post. imgs = map (\<lambda>d. [d]) w @ post"
  using assms
proof (induction imgs arbitrary: w)
  case Nil
  then show ?case by simp
next
  case (Cons img imgs)
  show ?case
  proof (cases w)
    case Nil
    then show ?thesis by simp
  next
    case w: (Cons d w')
    from Cons.prems(1) w have d: "is_ascii d" and w': "list_all is_ascii w'" by simp_all
    from Cons.prems(2) w have l: "w' \<noteq> [] \<longrightarrow> last w' \<noteq> CHR ''i''" by auto
    from Cons.prems(3) have img: "image_shape img" and imgs: "list_all image_shape imgs"
      by simp_all
    from Cons.prems(4) w have p: "prefix (d # w') (img @ concat imgs)" by simp
    from img show ?thesis
    proof (cases rule: image_head_cases)
      case (1 c)
      with p have "c = d" and "prefix w' (concat imgs)" by simp_all
      from Cons.IH[OF w' l imgs this(2)] obtain post where "imgs = map (\<lambda>d. [d]) w' @ post"
        by blast
      with 1 \<open>c = d\<close> w show ?thesis by simp
    next
      case 2
      with p have di: "d = CHR ''i''" and p': "prefix w' [CHR 0xCC, CHR 0x87] \<or>
          (\<exists>r. w' = CHR 0xCC # r)"
        by (auto simp: prefix_Cons)
      show ?thesis
      proof (cases w')
        case Nil
        with Cons.prems(2) w di show ?thesis by simp
      next
        case (Cons e r)
        with p 2 have "e = CHR 0xCC" by simp
        with w' Cons show ?thesis by (simp add: is_ascii_def)
      qed
    next
      case (3 h t)
      with p have "d = h" by simp
      with d 3 show ?thesis by simp
    qed
  qed
qed

lemma sublist_skip:
  assumes "w \<noteq> []" "hd w \<notin> set x" "sublist w (x @ r)"
  shows "sublist w r"
  using assms
proof (induction x)
  case Nil
  then show ?case by simp
next
  case (Cons a x)
  from Cons.prems(3) have "prefix w (a # x @ r) \<or> sublist w (x @ r)"
    by (simp add: sublist_Cons_right)
  then show ?case
  proof
    assume "prefix w (a # x @ r)"
    with Cons.prems(1) have "hd w = a" by (cases w) simp_all
    with Cons.prems(2) show ?thesis by simp
  next
    assume "sublist w (x @ r)"
    with Cons show ?thesis by simp
  qed
qed

lemma sublist_of_images:
  assumes "list_all is_ascii w" "w \<noteq> [] \<longrightarrow> last w \<noteq> CHR ''i''"
    and "list_all image_shape imgs" "sublist w (concat imgs)"
  shows "\<exists>pre post. imgs = pre @ map (\<lambda>d. [d]) w @ post"
  using assms(3,4)
proof (induction imgs)
  case Nil
  then show ?case by simp
next
  case (Cons img imgs)
  show ?case
  proof (cases "w = []")
    case True
    then show ?thesis by (auto intro: exI[of _ "[]"])
  next
    case False
    from Cons.prems(1) have img: "image_shape img" and imgs: "list_all image_shape imgs"
      by simp_all
    from assms(1) False have hw: "is_ascii (hd w)" by (cases w) simp_all
    from img obtain h t where ht: "img = h # t" "\<forall>b\<in>set t. \<not> is_ascii b"
      by (cases rule: image_head_cases) (auto simp: is_ascii_def list_all_iff)
    from Cons.prems(2) ht have "prefix w (img @ concat imgs) \<or> sublist w (t @ concat imgs)"
      by (simp add: sublist_Cons_right)
    then show ?thesis
    proof
      assume "prefix w (img @ concat imgs)"
      then have "prefix w (concat (img # imgs))" by simp
      from prefix_of_images[OF assms(1,2) Cons.prems(1) this] show ?thesis
        by (metis append_Nil)
    next
      assume s: "sublist w (t @ concat imgs)"
      from hw ht(2) have "hd w \<notin> set t" by blast
      from sublist_skip[OF False this s] have "sublist w (concat imgs)" .
      from Cons.IH[OF imgs this] obtain pre post where "imgs = pre @ map (\<lambda>d. [d]) w @ post"
        by blast
      then have "img # imgs = (img # pre) @ map (\<lambda>d. [d]) w @ post" by simp
      then show ?thesis by blast
    qed
  qed
qed

lemma concat_singletons: "concat (map (\<lambda>d. [d]) w) = w"
  by (induction w) simp_all

lemma images_contain_iff:
  assumes "list_all is_ascii w" "w \<noteq> [] \<longrightarrow> last w \<noteq> CHR ''i''" "list_all image_shape imgs"
  shows "sublist w (concat imgs) = (\<exists>pre post. imgs = pre @ map (\<lambda>d. [d]) w @ post)"
proof
  assume "sublist w (concat imgs)"
  then show "\<exists>pre post. imgs = pre @ map (\<lambda>d. [d]) w @ post"
    by (rule sublist_of_images[OF assms])
next
  assume "\<exists>pre post. imgs = pre @ map (\<lambda>d. [d]) w @ post"
  then obtain pre post where "imgs = pre @ map (\<lambda>d. [d]) w @ post" by blast
  then have "concat imgs = concat pre @ w @ concat post" by (simp add: concat_singletons)
  then show "sublist w (concat imgs)" unfolding sublist_def by blast
qed

text \<open>The image of a code point is a given small letter exactly when the code point is that
  letter ignoring case.\<close>

lemma same_letter_small:
  assumes "d \<in> set lower_letters"
  shows "same_letter_ignoring_case u d =
           ((\<exists>c. u = [c] \<and> (c = d \<or> (c, d) \<in> set (zip upper_letters lower_letters))) \<or>
            (u = KELVIN_SIGN \<and> d = CHR ''k''))"
proof -
  have nu: "(d, c) \<notin> set (zip upper_letters lower_letters)" for c
    using letters_disjoint[OF assms] pair_upper by blast
  have nk: "d \<noteq> CHR ''K''"
    using letters_disjoint[OF assms] by (auto simp: upper_letters_def)
  show ?thesis
  proof (cases u)
    case Nil
    then show ?thesis by (simp add: same_letter_ignoring_case_def KELVIN_SIGN_def)
  next
    case (Cons c r)
    show ?thesis
    proof (cases r)
      case Nil
      with Cons show ?thesis
        by (auto simp: same_letter_ignoring_case_def nu nk KELVIN_SIGN_def)
    next
      case (Cons c' r')
      with \<open>u = c # r\<close> show ?thesis
        by (auto simp: same_letter_ignoring_case_def nk)
    qed
  qed
qed

lemma image_is_letter_iff:
  assumes "non_ascii_lowercase table" "code_point_shape u" "d \<in> set lower_letters"
  shows "(lower_code_point table before u after = [d]) = same_letter_ignoring_case u d"
proof -
  have da: "is_ascii d" using assms(3) by (rule letters_ascii)
  consider c where "u = [c]" "is_ascii c"
    | "u = KELVIN_SIGN" | "u = CAPITAL_I_WITH_DOT"
    | "u \<noteq> []" "\<not> is_ascii (hd u)" "list_all is_continuation (tl u)"
      "u \<noteq> KELVIN_SIGN" "u \<noteq> CAPITAL_I_WITH_DOT"
    using assms(2) unfolding code_point_shape_def by blast
  then show ?thesis
  proof cases
    case 1
    then show ?thesis
      unfolding same_letter_small[OF assms(3)]
      by (simp add: lower_ascii_code_point toLowerChar_eq_letter[OF assms(3)] KELVIN_SIGN_def)
  next
    case 2
    then show ?thesis
      unfolding same_letter_small[OF assms(3)]
      by (auto simp: lower_code_point_def KELVIN_SIGN_def)
  next
    case 3
    then show ?thesis
      unfolding same_letter_small[OF assms(3)]
      by (simp add: lower_code_point_def KELVIN_SIGN_def CAPITAL_I_WITH_DOT_def)
  next
    case 4
    from assms(1) 4 have t: "table before u after \<noteq> [] \<and>
        list_all (\<lambda>b. \<not> is_ascii b) (table before u after)"
      unfolding non_ascii_lowercase_def by blast
    from t da have a: "table before u after \<noteq> [d]" by auto
    have b: "\<not> (\<exists>c. u = [c] \<and> (c = d \<or> (c, d) \<in> set (zip upper_letters lower_letters)))"
    proof
      assume "\<exists>c. u = [c] \<and> (c = d \<or> (c, d) \<in> set (zip upper_letters lower_letters))"
      then obtain c where c: "u = [c]" "c = d \<or> (c, d) \<in> set (zip upper_letters lower_letters)"
        by blast
      then have "is_ascii c" using da letters_ascii(1) pair_upper by blast
      with c(1) 4(2) show False by simp
    qed
    show ?thesis
      unfolding same_letter_small[OF assms(3)]
      using a b 4 by (simp add: lower_other_code_point[OF 4(1,2,4,5)])
  qed
qed

lemma images_related:
  assumes "non_ascii_lowercase table"
  shows "list_all code_point_shape us \<Longrightarrow>
         list_all2 (\<lambda>u img. \<forall>d\<in>set lower_letters. (img = [d]) = same_letter_ignoring_case u d)
           us (lower_code_points table before us)"
  by (induction us arbitrary: before) (simp_all add: image_is_letter_iff[OF assms])

lemma related_run_iff:
  assumes r: "list_all2 (\<lambda>u img. \<forall>d\<in>set lower_letters. (img = [d]) = same_letter_ignoring_case u d) xs mid"
    and w: "set w \<subseteq> set lower_letters"
  shows "(mid = map (\<lambda>d. [d]) w) = list_all2 same_letter_ignoring_case xs w"
proof
  assume "mid = map (\<lambda>d. [d]) w"
  with r have "list_all2 (\<lambda>u d. \<forall>e\<in>set lower_letters. ([d] = [e]) = same_letter_ignoring_case u e) xs w"
    by (simp add: list_all2_map2)
  then show "list_all2 same_letter_ignoring_case xs w"
    by (rule list.rel_mono_strong) (use w in auto)
next
  assume s: "list_all2 same_letter_ignoring_case xs w"
  show "mid = map (\<lambda>d. [d]) w"
  proof (rule nth_equalityI)
    from r s show "length mid = length (map (\<lambda>d. [d]) w)"
      by (simp add: list_all2_lengthD[symmetric])
  next
    fix i assume i: "i < length mid"
    with r s have li: "i < length xs" "i < length w"
      by (simp_all add: list_all2_lengthD[symmetric])
    from r li have "\<forall>d\<in>set lower_letters. (mid ! i = [d]) = same_letter_ignoring_case (xs ! i) d"
      by (simp add: list_all2_conv_all_nth)
    moreover from w li have "w ! i \<in> set lower_letters" by auto
    moreover from s li have "same_letter_ignoring_case (xs ! i) (w ! i)"
      by (simp add: list_all2_conv_all_nth)
    ultimately show "mid ! i = map (\<lambda>d. [d]) w ! i" using li by simp
  qed
qed

lemma includes_lower_iff:
  assumes t: "non_ascii_lowercase table"
    and w: "set w \<subseteq> set lower_letters" "w \<noteq> [] \<longrightarrow> last w \<noteq> CHR ''i''"
  shows "js_includes (js_toLowerCase table s) w = contains_ignoring_case s w"
proof -
  define us where "us = code_points s"
  define imgs where "imgs = lower_code_points table [] us"
  have shape: "list_all code_point_shape us"
    unfolding us_def by (simp add: list_all_iff code_points_shape)
  have ishape: "list_all image_shape imgs"
    unfolding imgs_def by (rule lower_code_points_shape[OF t shape])
  have rel: "list_all2 (\<lambda>u img. \<forall>d\<in>set lower_letters. (img = [d]) = same_letter_ignoring_case u d)
               us imgs"
    unfolding imgs_def by (rule images_related[OF t shape])
  have wa: "list_all is_ascii w"
    using w(1) letters_ascii(2) by (auto simp: list_all_iff)
  have "js_includes (js_toLowerCase table s) w = sublist w (concat imgs)"
    by (simp add: js_includes_sublist js_toLowerCase_def imgs_def us_def)
  also have "\<dots> = (\<exists>pre post. imgs = pre @ map (\<lambda>d. [d]) w @ post)"
    by (rule images_contain_iff[OF wa w(2) ishape])
  also have "\<dots> = (\<exists>ps xs vs. us = ps @ xs @ vs \<and> list_all2 same_letter_ignoring_case xs w)"
  proof
    assume "\<exists>pre post. imgs = pre @ map (\<lambda>d. [d]) w @ post"
    then obtain pre post where i: "imgs = pre @ map (\<lambda>d. [d]) w @ post" by blast
    from rel[unfolded i] obtain ps r where us: "us = ps @ r"
      and r: "list_all2 (\<lambda>u img. \<forall>d\<in>set lower_letters. (img = [d]) = same_letter_ignoring_case u d)
                r (map (\<lambda>d. [d]) w @ post)"
      by (auto simp: list_all2_append2)
    from r obtain xs vs where r': "r = xs @ vs"
      and x: "list_all2 (\<lambda>u img. \<forall>d\<in>set lower_letters. (img = [d]) = same_letter_ignoring_case u d)
                xs (map (\<lambda>d. [d]) w)"
      by (auto simp: list_all2_append2)
    from related_run_iff[OF x w(1)] have "list_all2 same_letter_ignoring_case xs w" by simp
    with us r' show "\<exists>ps xs vs. us = ps @ xs @ vs \<and> list_all2 same_letter_ignoring_case xs w"
      by blast
  next
    assume "\<exists>ps xs vs. us = ps @ xs @ vs \<and> list_all2 same_letter_ignoring_case xs w"
    then obtain ps xs vs where u: "us = ps @ xs @ vs"
      and s: "list_all2 same_letter_ignoring_case xs w" by blast
    from rel[unfolded u] obtain pre r where i: "imgs = pre @ r"
      and r: "list_all2 (\<lambda>u img. \<forall>d\<in>set lower_letters. (img = [d]) = same_letter_ignoring_case u d)
                (xs @ vs) r"
      by (auto simp: list_all2_append1)
    from r obtain mid post where r': "r = mid @ post"
      and x: "list_all2 (\<lambda>u img. \<forall>d\<in>set lower_letters. (img = [d]) = same_letter_ignoring_case u d)
                xs mid"
      by (auto simp: list_all2_append1)
    from related_run_iff[OF x w(1)] s have "mid = map (\<lambda>d. [d]) w" by simp
    with i r' show "\<exists>pre post. imgs = pre @ map (\<lambda>d. [d]) w @ post" by blast
  qed
  finally show ?thesis
    by (simp add: contains_ignoring_case_def us_def)
qed

lemma trigger_words_small:
  "set ''frankenstein'' \<subseteq> set lower_letters"
  "set ''relic'' \<subseteq> set lower_letters"
  "set ''hybrid'' \<subseteq> set lower_letters"
  by (simp_all add: lower_letters_def)

lemma trigger_words_last:
  "''frankenstein'' \<noteq> [] \<longrightarrow> last ''frankenstein'' \<noteq> CHR ''i''"
  "''relic'' \<noteq> [] \<longrightarrow> last ''relic'' \<noteq> CHR ''i''"
  "''hybrid'' \<noteq> [] \<longrightarrow> last ''hybrid'' \<noteq> CHR ''i''"
  by simp_all

lemma isFrankenstein_iff:
  assumes "non_ascii_lowercase table"
  shows "isFrankenstein table s = has_trigger_word s"
  unfolding isFrankenstein_def has_trigger_word_def trigger_words_def
  by (simp only: includes_lower_iff[OF assms trigger_words_small(1) trigger_words_last(1)]
      includes_lower_iff[OF assms trigger_words_small(2) trigger_words_last(2)]
      includes_lower_iff[OF assms trigger_words_small(3) trigger_words_last(3)]
      list_ex_Cons_iff list_ex_Nil_iff simp_thms)

text \<open>Text of ASCII characters only: one code point for each character, and no use of the
  table.\<close>

lemma code_points_ascii: "list_all is_ascii s \<Longrightarrow> code_points s = map (\<lambda>c. [c]) s"
  by (induction s) simp_all

lemma lower_code_points_ascii:
  "list_all is_ascii s \<Longrightarrow>
   lower_code_points table before (map (\<lambda>c. [c]) s) = map (\<lambda>c. [toLowerChar c]) s"
  by (induction s arbitrary: before) (simp_all add: lower_ascii_code_point)

lemma js_toLowerCase_ascii:
  "list_all is_ascii s \<Longrightarrow> js_toLowerCase table s = map toLowerChar s"
  by (simp add: js_toLowerCase_def code_points_ascii lower_code_points_ascii)

lemma contains_self:
  assumes "list_all is_ascii (u @ w @ v)"
  shows "contains_ignoring_case (u @ w @ v) w"
proof -
  have "code_points (u @ w @ v) = map (\<lambda>c. [c]) u @ map (\<lambda>c. [c]) w @ map (\<lambda>c. [c]) v"
    using assms by (simp add: code_points_ascii)
  moreover have "list_all2 same_letter_ignoring_case (map (\<lambda>c. [c]) w) w"
    by (simp add: list_all2_map1 list_all2_same same_letter_ignoring_case_def)
  ultimately show ?thesis unfolding contains_ignoring_case_def by blast
qed

lemma example_table_ok: "non_ascii_lowercase example_unicode_lower"
  unfolding non_ascii_lowercase_def example_unicode_lower_def
proof (intro allI impI)
  fix before u after :: string
  assume a: "u \<noteq> [] \<and> \<not> is_ascii (hd u) \<and> list_all is_continuation (tl u) \<and>
        u \<noteq> KELVIN_SIGN \<and> u \<noteq> CAPITAL_I_WITH_DOT"
  then obtain h t where u: "u = h # t" by (cases u) auto
  with a have "list_all (\<lambda>b. \<not> is_ascii b) u"
    by (auto simp: list_all_iff dest: continuation_not_ascii)
  with a show "(if u = [CHR 0xC3, CHR 0x89] then [CHR 0xC3, CHR 0xA9] else u) \<noteq> [] \<and>
       list_all (\<lambda>b. \<not> is_ascii b) (if u = [CHR 0xC3, CHR 0x89] then [CHR 0xC3, CHR 0xA9] else u)"
    by (simp add: is_ascii_def)
qed

lemma kelvin_example:
  "isFrankenstein table (''fran'' @ KELVIN_SIGN @ ''enstein look'')"
  by (simp add: isFrankenstein_def js_toLowerCase_def KELVIN_SIGN_def is_ascii_def
        is_continuation_def lower_code_point_def CAPITAL_I_WITH_DOT_def toLowerChar_def
        upper_letters_def lower_letters_def)

section \<open>Claim C1: the trigger words select the instruction\<close>

lemma generateLutheriePrompt_events:
  "snd (generateLutheriePrompt env b s (Some p)) =
     (case getAiClient env of
        Inl e \<Rightarrow> []
      | Inr k \<Rightarrow> [Request (lutherie_request (unicode_lower env) b s p)])"
  by (simp add: generateLutheriePrompt_def split: sum.splits)

lemma lutherie_request_text:
  "map partText (contents (lutherie_request table b s p)) = [None, Some (userPrompt table s p)]"
  by (simp add: lutherie_request_def)

lemma userPrompt_philosophy_line:
  "userPrompt_lines table s p n ! 21 = ''    4. PHILOSOPHY: '' @ philosophyInstruction table n p"
  by (simp add: userPrompt_lines_def)

lemma userPrompt_lines_length: "length (userPrompt_lines table s p n) = 27"
  by (simp add: userPrompt_lines_def)

lemma template_lines_append:
  "a \<noteq> [] \<Longrightarrow> b \<noteq> [] \<Longrightarrow>
   template_lines (a @ b) = template_lines a @ ''\<newline>'' @ template_lines b"
proof (induction a rule: template_lines.induct)
  case 1
  then show ?case by simp
next
  case (2 l)
  then show ?case by (cases b) simp_all
next
  case (3 l v va)
  then show ?case by simp
qed

text \<open>The instruction stands in the prompt text as a line of its own.\<close>

lemma userPrompt_contains_line:
  "\<exists>before after.
     userPrompt table s p =
       before @ ''\<newline>    4. PHILOSOPHY: '' @ philosophyInstruction table (or_default (notes s) []) p @
       ''\<newline>'' @ after"
proof -
  define ls where "ls = userPrompt_lines table s p (or_default (notes s) [])"
  define before where "before = take 21 ls"
  define after where "after = drop 22 ls"
  have len: "length ls = 27" unfolding ls_def by (rule userPrompt_lines_length)
  have e: "Suc 21 = (22::nat)" by simp
  have split: "ls = before @ ([ls ! 21] @ after)"
    unfolding before_def after_def append.simps e[symmetric]
    by (rule id_take_nth_drop) (simp add: len)
  have ne: "before \<noteq> []" "after \<noteq> []"
    unfolding before_def after_def using len by auto
  have "template_lines ls = template_lines (before @ ([ls ! 21] @ after))"
    by (subst split) (rule refl)
  also have "\<dots> = template_lines before @ ''\<newline>'' @ template_lines ([ls ! 21] @ after)"
    by (rule template_lines_append) (simp_all add: ne)
  also have "template_lines ([ls ! 21] @ after) =
               template_lines [ls ! 21] @ ''\<newline>'' @ template_lines after"
    by (rule template_lines_append) (simp_all add: ne)
  finally have "template_lines ls =
      template_lines before @ ''\<newline>'' @ ls ! 21 @ ''\<newline>'' @ template_lines after"
    by simp
  then have "userPrompt table s p =
       template_lines before @ ''\<newline>    4. PHILOSOPHY: '' @
       philosophyInstruction table (or_default (notes s) []) p @ ''\<newline>'' @ template_lines after"
    unfolding ls_def userPrompt_philosophy_line
    by (simp add: userPrompt_def Let_def)
  then show ?thesis by blast
qed

text \<open>
  C1. For every specification and every original philosophy, the instruction that
  \<open>generateLutheriePrompt\<close> builds is the deviate-from-philosophy text exactly when
  the notes (\<open>targetSpecs.notes || ""\<close>) contain one of the trigger words
  \<open>frankenstein\<close>, \<open>relic\<close>, \<open>hybrid\<close> as a substring ignoring case, and
  otherwise the preserve-philosophy text with the original philosophy embedded; in
  particular notes containing \<open>hybrid\<close> in any letter case give the deviate text.
  The instruction is line 21 of the user prompt and stands in the prompt text as a line
  of its own, the user prompt is the text part of the request, and that request is the
  only one the function sends (none without a credential). The notes are any text of
  Unicode; the hypothesis is what the Unicode tables give for the lower-case images
  that the model leaves to its environment.
\<close>

theorem C1_trigger_selects_instruction:
  assumes "non_ascii_lowercase (unicode_lower env)"
  shows
  "philosophyInstruction (unicode_lower env) (or_default (notes targetSpecs) []) originalPhilosophy =
     (if has_trigger_word (or_default (notes targetSpecs) [])
      then ''Create a 'High Performance Hybrid' aesthetic. Act as a Custom Shop Luthier blending the original shape with aggressive, modern, or distressed (relic) modifications. Deviate from the original vintage philosophy to achieve a unique 'Frankenstein' super-mod look.''
      else ''Ensure the aesthetic respects the original instrument's philosophy ('' @ originalPhilosophy @ '') unless the modification explicitly contradicts it.'') \<and>
   (contains_ignoring_case (or_default (notes targetSpecs) []) ''hybrid'' \<longrightarrow>
      philosophyInstruction (unicode_lower env) (or_default (notes targetSpecs) []) originalPhilosophy =
        ''Create a 'High Performance Hybrid' aesthetic. Act as a Custom Shop Luthier blending the original shape with aggressive, modern, or distressed (relic) modifications. Deviate from the original vintage philosophy to achieve a unique 'Frankenstein' super-mod look.'') \<and>
   userPrompt (unicode_lower env) targetSpecs originalPhilosophy =
     template_lines (userPrompt_lines (unicode_lower env) targetSpecs originalPhilosophy
                       (or_default (notes targetSpecs) [])) \<and>
   userPrompt_lines (unicode_lower env) targetSpecs originalPhilosophy (or_default (notes targetSpecs) []) ! 21 =
     ''    4. PHILOSOPHY: '' @
     philosophyInstruction (unicode_lower env) (or_default (notes targetSpecs) []) originalPhilosophy \<and>
   (\<exists>before after.
      userPrompt (unicode_lower env) targetSpecs originalPhilosophy =
        before @ ''\<newline>    4. PHILOSOPHY: '' @
        philosophyInstruction (unicode_lower env) (or_default (notes targetSpecs) []) originalPhilosophy @
        ''\<newline>'' @ after) \<and>
   map partText (contents (lutherie_request (unicode_lower env) base64Original targetSpecs originalPhilosophy)) =
     [None, Some (userPrompt (unicode_lower env) targetSpecs originalPhilosophy)] \<and>
   snd (generateLutheriePrompt env base64Original targetSpecs (Some originalPhilosophy)) =
     (case getAiClient env of
        Inl e \<Rightarrow> []
      | Inr k \<Rightarrow> [Request (lutherie_request (unicode_lower env) base64Original targetSpecs originalPhilosophy)])"
proof -
  have sel: "philosophyInstruction (unicode_lower env) n p =
     (if has_trigger_word n
      then ''Create a 'High Performance Hybrid' aesthetic. Act as a Custom Shop Luthier blending the original shape with aggressive, modern, or distressed (relic) modifications. Deviate from the original vintage philosophy to achieve a unique 'Frankenstein' super-mod look.''
      else ''Ensure the aesthetic respects the original instrument's philosophy ('' @ p @ '') unless the modification explicitly contradicts it.'')" for n p
    by (simp only: philosophyInstruction_def isFrankenstein_iff[OF assms])
  have hyb: "contains_ignoring_case n ''hybrid'' \<Longrightarrow> has_trigger_word n" for n
    by (simp add: has_trigger_word_def trigger_words_def)
  show ?thesis
    using sel hyb userPrompt_philosophy_line lutherie_request_text generateLutheriePrompt_events
      userPrompt_contains_line[of "unicode_lower env" targetSpecs originalPhilosophy]
    by (simp add: userPrompt_def Let_def)
qed

lemma hybrid_example: "contains_ignoring_case ''Make it a HyBrId build'' ''hybrid''"
  unfolding contains_ignoring_case_def
  by (rule exI[of _ "map (\<lambda>c. [c]) ''Make it a ''"], rule exI[of _ "map (\<lambda>c. [c]) ''HyBrId''"],
      rule exI[of _ "map (\<lambda>c. [c]) '' build''"])
     (simp add: is_ascii_def same_letter_ignoring_case_def upper_letters_def lower_letters_def)

lemma kelvin_notes_trigger:
  "has_trigger_word (''fran'' @ KELVIN_SIGN @ ''enstein look'')"
  using kelvin_example[of example_unicode_lower]
  by (simp only: isFrankenstein_iff[OF example_table_ok])

text \<open>
  The theorem at an environment whose table satisfies the hypothesis, at notes that spell
  the word as \<open>HyBrId\<close> and at notes that spell \<open>frankenstein\<close> with the Kelvin sign
  for its \<open>k\<close>: the deviate text is built.
\<close>

theorem C1_witness:
  "non_ascii_lowercase (unicode_lower env_answering) \<and>
   contains_ignoring_case ''Make it a HyBrId build'' ''hybrid'' \<and>
   philosophyInstruction (unicode_lower env_answering) ''Make it a HyBrId build'' ''Artesanal (Gibson)'' =
     ''Create a 'High Performance Hybrid' aesthetic. Act as a Custom Shop Luthier blending the original shape with aggressive, modern, or distressed (relic) modifications. Deviate from the original vintage philosophy to achieve a unique 'Frankenstein' super-mod look.'' \<and>
   has_trigger_word (''fran'' @ KELVIN_SIGN @ ''enstein look'') \<and>
   philosophyInstruction (unicode_lower env_answering) (''fran'' @ KELVIN_SIGN @ ''enstein look'') ''Artesanal (Gibson)'' =
     ''Create a 'High Performance Hybrid' aesthetic. Act as a Custom Shop Luthier blending the original shape with aggressive, modern, or distressed (relic) modifications. Deviate from the original vintage philosophy to achieve a unique 'Frankenstein' super-mod look.''"
proof -
  have t: "non_ascii_lowercase (unicode_lower env_answering)"
    by (simp add: env_answering_def example_table_ok)
  have n1: "or_default (notes (initial_specs\<lparr>notes := Some ''Make it a HyBrId build''\<rparr>)) [] =
              ''Make it a HyBrId build''"
    by (simp add: or_default_def)
  have n2: "or_default (notes (initial_specs\<lparr>notes := Some (''fran'' @ KELVIN_SIGN @ ''enstein look'')\<rparr>)) [] =
              ''fran'' @ KELVIN_SIGN @ ''enstein look''"
    by (simp add: or_default_def)
  from C1_trigger_selects_instruction
          [OF t, THEN conjunct2, THEN conjunct1,
           of "initial_specs\<lparr>notes := Some ''Make it a HyBrId build''\<rparr>" "''Artesanal (Gibson)''"]
       hybrid_example
  have a: "philosophyInstruction (unicode_lower env_answering) ''Make it a HyBrId build'' ''Artesanal (Gibson)'' =
     ''Create a 'High Performance Hybrid' aesthetic. Act as a Custom Shop Luthier blending the original shape with aggressive, modern, or distressed (relic) modifications. Deviate from the original vintage philosophy to achieve a unique 'Frankenstein' super-mod look.''"
    unfolding n1 by blast
  from C1_trigger_selects_instruction
          [OF t, THEN conjunct1,
           of "initial_specs\<lparr>notes := Some (''fran'' @ KELVIN_SIGN @ ''enstein look'')\<rparr>" "''Artesanal (Gibson)''"]
       kelvin_notes_trigger
  have b: "philosophyInstruction (unicode_lower env_answering) (''fran'' @ KELVIN_SIGN @ ''enstein look'') ''Artesanal (Gibson)'' =
     ''Create a 'High Performance Hybrid' aesthetic. Act as a Custom Shop Luthier blending the original shape with aggressive, modern, or distressed (relic) modifications. Deviate from the original vintage philosophy to achieve a unique 'Frankenstein' super-mod look.''"
    unfolding n2 by (simp only: if_True)
  show ?thesis
    using t hybrid_example a kelvin_notes_trigger b by blast
qed

section \<open>Claim C2: the Frankenstein preset\<close>

lemma js_includes_middle: "js_includes (u @ w @ v) w"
  by (simp add: js_includes_sublist sublist_def) blast

lemma preset_notes_split:
  "''Custom Shop 'Frankenstein' mod. Gibson style Humbucker in bridge. Heavy relic aged Nitrocellulose finish. High performance hybrid aesthetic.'' =
   ''Custom Shop 'Frankenstein' mod. Gibson style Humbucker in bridge. Heavy relic aged Nitrocellulose finish. High performance '' @ ''hybrid'' @ '' aesthetic.''"
  by simp

lemma preset_notes_ascii:
  "list_all is_ascii (''Custom Shop 'Frankenstein' mod. Gibson style Humbucker in bridge. Heavy relic aged Nitrocellulose finish. High performance '' @ ''hybrid'' @ '' aesthetic.'')"
  by (simp add: is_ascii_def)

lemma preset_notes_hybrid:
  "contains_ignoring_case ''Custom Shop 'Frankenstein' mod. Gibson style Humbucker in bridge. Heavy relic aged Nitrocellulose finish. High performance hybrid aesthetic.'' ''hybrid''"
  by (subst preset_notes_split) (rule contains_self[OF preset_notes_ascii])

lemma preset_notes_includes:
  "js_includes ''Custom Shop 'Frankenstein' mod. Gibson style Humbucker in bridge. Heavy relic aged Nitrocellulose finish. High performance hybrid aesthetic.'' ''hybrid''"
  by (subst preset_notes_split) (rule js_includes_middle)

lemma hybrid_is_small: "map toLowerChar ''hybrid'' = ''hybrid''"
  by (simp add: toLowerChar_def upper_letters_def lower_letters_def)

lemma preset_notes_trigger:
  "isFrankenstein table ''Custom Shop 'Frankenstein' mod. Gibson style Humbucker in bridge. Heavy relic aged Nitrocellulose finish. High performance hybrid aesthetic.''"
proof -
  have "js_includes
          (js_toLowerCase table (''Custom Shop 'Frankenstein' mod. Gibson style Humbucker in bridge. Heavy relic aged Nitrocellulose finish. High performance '' @ ''hybrid'' @ '' aesthetic.''))
          ''hybrid''"
    unfolding js_toLowerCase_ascii[OF preset_notes_ascii] map_append hybrid_is_small
    by (rule js_includes_middle)
  then show ?thesis
    unfolding isFrankenstein_def by (subst (1 2 3) preset_notes_split) blast
qed

text \<open>
  C2. Whatever the state before, the Frankenstein preset (one \<open>setSpecs\<close> update) gives
  the bridge Floyd Rose (Double Locking), the pickups HSS (Humbucker Bridge), the body
  wood Swamp Ash and the fixed notes text, which contains the word \<open>hybrid\<close>; the neck
  profile, fretboard, scale length, fretboard radius, construction and philosophy of the
  specification are those of the state before, and no other cell of the state changes.
\<close>

theorem C2_frankenstein_preset:
  "bridge (specs (applyFrankensteinPreset st)) = BridgeSystem.FLOYD_ROSE \<and>
   BridgeSystem_value (bridge (specs (applyFrankensteinPreset st))) = ''Floyd Rose (Double Locking)'' \<and>
   pickups (specs (applyFrankensteinPreset st)) = PickupConfig.HSS \<and>
   PickupConfig_value (pickups (specs (applyFrankensteinPreset st))) = ''HSS (Humbucker Bridge)'' \<and>
   bodyWood (specs (applyFrankensteinPreset st)) = BodyWood.ASH \<and>
   BodyWood_value (bodyWood (specs (applyFrankensteinPreset st))) = ''Swamp Ash'' \<and>
   notes (specs (applyFrankensteinPreset st)) =
     Some ''Custom Shop 'Frankenstein' mod. Gibson style Humbucker in bridge. Heavy relic aged Nitrocellulose finish. High performance hybrid aesthetic.'' \<and>
   js_includes (or_default (notes (specs (applyFrankensteinPreset st))) []) ''hybrid'' \<and>
   neckProfile (specs (applyFrankensteinPreset st)) = neckProfile (specs st) \<and>
   fretboard (specs (applyFrankensteinPreset st)) = fretboard (specs st) \<and>
   scaleLength (specs (applyFrankensteinPreset st)) = scaleLength (specs st) \<and>
   fretboardRadius (specs (applyFrankensteinPreset st)) = fretboardRadius (specs st) \<and>
   construction (specs (applyFrankensteinPreset st)) = construction (specs st) \<and>
   philosophy (specs (applyFrankensteinPreset st)) = philosophy (specs st) \<and>
   applyFrankensteinPreset st = st\<lparr>specs := specs (applyFrankensteinPreset st)\<rparr>"
proof -
  have n: "notes (specs (applyFrankensteinPreset st)) =
     Some ''Custom Shop 'Frankenstein' mod. Gibson style Humbucker in bridge. Heavy relic aged Nitrocellulose finish. High performance hybrid aesthetic.''"
    by (simp add: applyFrankensteinPreset_def)
  have i: "js_includes (or_default (notes (specs (applyFrankensteinPreset st))) []) ''hybrid''"
    unfolding n by (simp only: or_default_def option.case list.distinct if_False preset_notes_includes)
  show ?thesis
    using n i by (simp add: applyFrankensteinPreset_def)
qed

section \<open>The generation pipeline: events of handleSimulate\<close>

lemma prompt_events_are_requests:
  "generateLutheriePrompt env b s p = (r, evs) \<Longrightarrow> ev \<in> set evs \<Longrightarrow> \<exists>q. ev = Request q"
  by (auto simp: generateLutheriePrompt_def Let_def split: sum.splits)

lemma image_events_are_requests:
  "generateModifiedGuitarImage env t = (r, evs) \<Longrightarrow> ev \<in> set evs \<Longrightarrow> \<exists>q. ev = Request q"
  by (auto simp: generateModifiedGuitarImage_def split: sum.splits)

lemma image_events:
  "generateModifiedGuitarImage env t = (r, evs) \<Longrightarrow>
   evs = (case getAiClient env of Inl e \<Rightarrow> [] | Inr k \<Rightarrow> [Request (image_request t)])"
  by (auto simp: generateModifiedGuitarImage_def split: sum.splits)

lemma request_models:
  "model (lutherie_request table b s p) = ''gemini-3-pro-preview''"
  "model (image_request t) = ''gemini-3-pro-image-preview''"
  "model (analysis_request i) = ''gemini-3-flash-preview''"
  by (simp_all add: lutherie_request_def image_request_def analysis_request_def)

lemma lutherie_not_image: "lutherie_request table b s p \<noteq> image_request t"
proof
  assume "lutherie_request table b s p = image_request t"
  then have "model (lutherie_request table b s p) = model (image_request t)" by simp
  then show False by (simp add: request_models)
qed

text \<open>The one call of the synthesizer that \<open>handleSimulate\<close> makes, and its arguments.\<close>

lemma handleSimulate_call:
  assumes "handleSimulate env st = (st', evs)"
    and "Call_generateLutheriePrompt b s p \<in> set evs"
  shows "s = specs st \<and>
         (\<exists>img. originalImage st = Some img \<and> img \<noteq> [] \<and> b = js_index (js_split CHR '','' img) 1) \<and>
         p = or_default
               (case analysisResult st of
                  None \<Rightarrow> None
                | Some r \<Rightarrow> (case detectedSpecs r of None \<Rightarrow> None | Some d \<Rightarrow> d ''philosophy''))
               ''Standard Industry Design''"
  using assms
  by (auto simp: handleSimulate_def Let_def
           split: option.splits if_splits prod.splits sum.splits
           dest: prompt_events_are_requests image_events_are_requests)

section \<open>Claims C6 and C10: failure and empty answer of the prompt synthesis\<close>

text \<open>
  C6. When the prompt synthesis that \<open>handleSimulate\<close> invokes fails (an error of the
  remote call is rethrown by \<open>generateLutheriePrompt\<close> as its own failure), the handler
  ends with the generic failure message in \<open>error\<close>, no generated prompt, no generated
  image and the busy flag cleared, and image synthesis is never invoked: the events hold
  no call of \<open>generateModifiedGuitarImage\<close> and no render request.
\<close>

theorem C6_prompt_failure_aborts_pipeline:
  assumes "handleSimulate env st = (st', evs)"
    and "Call_generateLutheriePrompt b s p \<in> set evs"
    and "fst (generateLutheriePrompt env b s (Some p)) = Inl e"
  shows "error st' = Some ''Simulation failed. Ensure you have a valid Gemini API Key enabled.'' \<and>
         generatedPrompt st' = None \<and>
         generatedImage st' = None \<and>
         isGenerating st' = False \<and>
         (\<nexists>t. Call_generateModifiedGuitarImage t \<in> set evs) \<and>
         (\<nexists>t. Request (image_request t) \<in> set evs) \<and>
         (\<forall>k e'. getAiClient env = Inr k \<and> generateContent env (lutherie_request (unicode_lower env) b s p) = Inl e'
            \<longrightarrow> fst (generateLutheriePrompt env b s (Some p)) = Inl e')"
proof -
  from handleSimulate_call[OF assms(1,2)] obtain img where
    s: "s = specs st" and img: "originalImage st = Some img" "img \<noteq> []"
    and b: "b = js_index (js_split CHR '','' img) 1"
    and p: "p = or_default
               (case analysisResult st of
                  None \<Rightarrow> None
                | Some r \<Rightarrow> (case detectedSpecs r of None \<Rightarrow> None | Some d \<Rightarrow> d ''philosophy''))
               ''Standard Industry Design''"
    by blast
  obtain r1 ev1 where g: "generateLutheriePrompt env b s (Some p) = (r1, ev1)"
    by (cases "generateLutheriePrompt env b s (Some p)")
  with assms(3) have r1: "r1 = Inl e" by simp
  from g have ev1: "ev1 = (case getAiClient env of Inl e \<Rightarrow> [] | Inr k \<Rightarrow> [Request (lutherie_request (unicode_lower env) b s p)])"
    using generateLutheriePrompt_events[of env b s p] by simp
  have st': "st' = st\<lparr>isGenerating := True, error := None, generatedImage := None,
                      generatedPrompt := None,
                      error := Some ''Simulation failed. Ensure you have a valid Gemini API Key enabled.'',
                      isGenerating := False\<rparr>"
    and evs: "evs = Call_generateLutheriePrompt b s p # ev1"
    using assms(1) img g r1 unfolding s b p
    by (simp_all add: handleSimulate_def Let_def)
  have "fst (generateLutheriePrompt env b s (Some p)) = Inl e'"
    if "getAiClient env = Inr k" "generateContent env (lutherie_request (unicode_lower env) b s p) = Inl e'" for k e'
    using that by (simp add: generateLutheriePrompt_def)
  then show ?thesis
    unfolding st' evs ev1
    by (auto simp: lutherie_not_image lutherie_not_image[symmetric] split: sum.splits)
qed

text \<open>
  The theorem at the environment whose service cannot be reached, in the state after an
  upload: the synthesizer is called, fails, and nothing else is called.
\<close>

theorem C6_witness:
  "handleSimulate env_unreachable uploaded_state =
     (uploaded_state\<lparr>error := Some ''Simulation failed. Ensure you have a valid Gemini API Key enabled.''\<rparr>,
      [Call_generateLutheriePrompt (Some ''QUJD'') initial_specs ''Standard Industry Design'',
       Request (lutherie_request (unicode_lower env_unreachable) (Some ''QUJD'') initial_specs ''Standard Industry Design'')]) \<and>
   fst (generateLutheriePrompt env_unreachable (Some ''QUJD'') initial_specs (Some ''Standard Industry Design'')) =
     Inl (Error ''Failed to fetch'') \<and>
   (\<nexists>t. Call_generateModifiedGuitarImage t \<in>
      set [Call_generateLutheriePrompt (Some ''QUJD'') initial_specs ''Standard Industry Design'',
           Request (lutherie_request (unicode_lower env_unreachable) (Some ''QUJD'') initial_specs ''Standard Industry Design'')])"
proof -
  have g: "generateLutheriePrompt env_unreachable (Some ''QUJD'') initial_specs (Some ''Standard Industry Design'') =
     (Inl (Error ''Failed to fetch''),
      [Request (lutherie_request (unicode_lower env_unreachable) (Some ''QUJD'') initial_specs ''Standard Industry Design'')])"
    by (simp add: generateLutheriePrompt_def getAiClient_def env_unreachable_def)
  have h: "handleSimulate env_unreachable uploaded_state =
     (uploaded_state\<lparr>error := Some ''Simulation failed. Ensure you have a valid Gemini API Key enabled.''\<rparr>,
      [Call_generateLutheriePrompt (Some ''QUJD'') initial_specs ''Standard Industry Design'',
       Request (lutherie_request (unicode_lower env_unreachable) (Some ''QUJD'') initial_specs ''Standard Industry Design'')])"
    by (simp add: handleSimulate_def uploaded_state_def initial_state_def js_index_def g or_default_def Let_def)
  show ?thesis
    using C6_prompt_failure_aborts_pipeline[OF h, of "Some ''QUJD''" initial_specs "''Standard Industry Design''" "Error ''Failed to fetch''"] g h
    by simp
qed

text \<open>
  C10. When the service answers the synthesis request with a response whose text is
  absent or empty, \<open>generateLutheriePrompt\<close> does not fail: it returns the literal
  \<open>Failed to generate prompt.\<close> (a non-empty string), and \<open>handleSimulate\<close> stores
  it as the generated prompt and goes on to call \<open>generateModifiedGuitarImage\<close> with
  it, which sends the render request for that text.
\<close>

theorem C10_empty_text_gives_literal_prompt:
  assumes "handleSimulate env st = (st', evs)"
    and "Call_generateLutheriePrompt b s p \<in> set evs"
    and "getAiClient env = Inr k"
    and "generateContent env (lutherie_request (unicode_lower env) b s p) = Inr response"
    and "falsy (responseText response)"
  shows "fst (generateLutheriePrompt env b s (Some p)) = Inr ''Failed to generate prompt.'' \<and>
         ''Failed to generate prompt.'' \<noteq> [] \<and>
         generatedPrompt st' = Some ''Failed to generate prompt.'' \<and>
         Call_generateModifiedGuitarImage ''Failed to generate prompt.'' \<in> set evs \<and>
         Request (image_request ''Failed to generate prompt.'') \<in> set evs"
proof -
  from handleSimulate_call[OF assms(1,2)] obtain img where
    s: "s = specs st" and img: "originalImage st = Some img" "img \<noteq> []"
    and b: "b = js_index (js_split CHR '','' img) 1"
    and p: "p = or_default
               (case analysisResult st of
                  None \<Rightarrow> None
                | Some r \<Rightarrow> (case detectedSpecs r of None \<Rightarrow> None | Some d \<Rightarrow> d ''philosophy''))
               ''Standard Industry Design''"
    by blast
  from assms(5) have d: "or_default (responseText response) ''Failed to generate prompt.'' = ''Failed to generate prompt.''"
    by (auto simp: falsy_def or_default_def)
  have g: "generateLutheriePrompt env b s (Some p) =
             (Inr ''Failed to generate prompt.'', [Request (lutherie_request (unicode_lower env) b s p)])"
    using assms(3,4) d by (simp add: generateLutheriePrompt_def)
  obtain r2 ev2 where i: "generateModifiedGuitarImage env ''Failed to generate prompt.'' = (r2, ev2)"
    by (cases "generateModifiedGuitarImage env ''Failed to generate prompt.''")
  from image_events[OF i] assms(3) have ev2: "ev2 = [Request (image_request ''Failed to generate prompt.'')]"
    by simp
  have "generatedPrompt st' = Some ''Failed to generate prompt.'' \<and>
        evs = Call_generateLutheriePrompt b s p # [Request (lutherie_request (unicode_lower env) b s p)] @
              Call_generateModifiedGuitarImage ''Failed to generate prompt.'' # ev2"
    using assms(1) img g i unfolding s b p
    by (cases r2) (auto simp: handleSimulate_def Let_def)
  then show ?thesis using g ev2 by simp
qed

text \<open>
  The theorem at the environment whose service answers with an empty response, in the state
  after an upload.
\<close>

theorem C10_witness:
  "getAiClient env_silent = Inr ''test-key'' \<and>
   generateContent env_silent (lutherie_request (unicode_lower env_silent) (Some ''QUJD'') initial_specs ''Standard Industry Design'') =
     Inr \<lparr>responseText = None, candidates = None\<rparr> \<and>
   falsy (responseText \<lparr>responseText = None, candidates = None\<rparr>) \<and>
   Call_generateLutheriePrompt (Some ''QUJD'') initial_specs ''Standard Industry Design''
     \<in> set (snd (handleSimulate env_silent uploaded_state)) \<and>
   Call_generateModifiedGuitarImage ''Failed to generate prompt.''
     \<in> set (snd (handleSimulate env_silent uploaded_state)) \<and>
   Request (image_request ''Failed to generate prompt.'')
     \<in> set (snd (handleSimulate env_silent uploaded_state)) \<and>
   generatedPrompt (fst (handleSimulate env_silent uploaded_state)) = Some ''Failed to generate prompt.''"
proof -
  have k: "getAiClient env_silent = Inr ''test-key''"
    by (simp add: getAiClient_def env_silent_def)
  have r: "generateContent env_silent (lutherie_request (unicode_lower env_silent) (Some ''QUJD'') initial_specs ''Standard Industry Design'') =
     Inr \<lparr>responseText = None, candidates = None\<rparr>"
    by (simp add: env_silent_def)
  have f: "falsy (responseText \<lparr>responseText = None, candidates = None\<rparr>)"
    by (simp add: falsy_def)
  have g: "generateLutheriePrompt env_silent (Some ''QUJD'') initial_specs (Some ''Standard Industry Design'') =
             (Inr ''Failed to generate prompt.'',
              [Request (lutherie_request (unicode_lower env_silent) (Some ''QUJD'') initial_specs ''Standard Industry Design'')])"
    using k r by (simp add: generateLutheriePrompt_def or_default_def)
  have c: "Call_generateLutheriePrompt (Some ''QUJD'') initial_specs ''Standard Industry Design''
     \<in> set (snd (handleSimulate env_silent uploaded_state))"
    by (simp add: handleSimulate_def uploaded_state_def initial_state_def js_index_def g
          or_default_def Let_def split: prod.splits sum.splits)
  show ?thesis
    using C10_empty_text_gives_literal_prompt[OF surjective_pairing c k r f] k r f c
    by simp
qed

section \<open>Claim C9: the preset notes trigger the deviation\<close>

lemma preset_instruction:
  "philosophyInstruction table (or_default (notes (specs (applyFrankensteinPreset st))) []) p =
     ''Create a 'High Performance Hybrid' aesthetic. Act as a Custom Shop Luthier blending the original shape with aggressive, modern, or distressed (relic) modifications. Deviate from the original vintage philosophy to achieve a unique 'Frankenstein' super-mod look.''"
proof -
  have n: "or_default (notes (specs (applyFrankensteinPreset st))) [] =
     ''Custom Shop 'Frankenstein' mod. Gibson style Humbucker in bridge. Heavy relic aged Nitrocellulose finish. High performance hybrid aesthetic.''"
    by (simp add: applyFrankensteinPreset_def or_default_def)
  show ?thesis
    unfolding n philosophyInstruction_def
    by (simp only: preset_notes_trigger if_True)
qed

text \<open>
  C9. Whatever the state before, the notes that the Frankenstein preset installs contain
  a trigger word ignoring case, so \<open>isFrankenstein\<close> holds of them and the instruction
  built from them is the deviate-from-philosophy text, never the preserve-philosophy
  one, for every original philosophy; and every call of the synthesizer that
  \<open>handleSimulate\<close> makes in the state right after the preset builds that instruction on
  line 21 of its prompt.
\<close>

theorem C9_preset_always_deviates:
  "has_trigger_word (or_default (notes (specs (applyFrankensteinPreset st))) []) \<and>
   isFrankenstein table (or_default (notes (specs (applyFrankensteinPreset st))) []) \<and>
   philosophyInstruction table (or_default (notes (specs (applyFrankensteinPreset st))) []) originalPhilosophy =
     ''Create a 'High Performance Hybrid' aesthetic. Act as a Custom Shop Luthier blending the original shape with aggressive, modern, or distressed (relic) modifications. Deviate from the original vintage philosophy to achieve a unique 'Frankenstein' super-mod look.'' \<and>
   philosophyInstruction table (or_default (notes (specs (applyFrankensteinPreset st))) []) originalPhilosophy \<noteq>
     ''Ensure the aesthetic respects the original instrument's philosophy ('' @ originalPhilosophy @ '') unless the modification explicitly contradicts it.'' \<and>
   (\<forall>b s p. Call_generateLutheriePrompt b s p \<in> set (snd (handleSimulate env (applyFrankensteinPreset st))) \<longrightarrow>
      s = specs (applyFrankensteinPreset st) \<and>
      userPrompt_lines table s p (or_default (notes s) []) ! 21 =
        ''    4. PHILOSOPHY: Create a 'High Performance Hybrid' aesthetic. Act as a Custom Shop Luthier blending the original shape with aggressive, modern, or distressed (relic) modifications. Deviate from the original vintage philosophy to achieve a unique 'Frankenstein' super-mod look.'')"
proof -
  have n: "or_default (notes (specs (applyFrankensteinPreset st))) [] =
     ''Custom Shop 'Frankenstein' mod. Gibson style Humbucker in bridge. Heavy relic aged Nitrocellulose finish. High performance hybrid aesthetic.''"
    by (simp add: applyFrankensteinPreset_def or_default_def)
  have ht: "has_trigger_word (or_default (notes (specs (applyFrankensteinPreset st))) [])"
    unfolding n by (simp add: has_trigger_word_def trigger_words_def preset_notes_hybrid)
  have t: "isFrankenstein table (or_default (notes (specs (applyFrankensteinPreset st))) [])"
    unfolding n by (rule preset_notes_trigger)
  have d: "philosophyInstruction table (or_default (notes (specs (applyFrankensteinPreset st))) []) originalPhilosophy \<noteq>
     ''Ensure the aesthetic respects the original instrument's philosophy ('' @ originalPhilosophy @ '') unless the modification explicitly contradicts it.''"
    unfolding preset_instruction by simp
  have c: "s = specs (applyFrankensteinPreset st) \<and>
      userPrompt_lines table s p (or_default (notes s) []) ! 21 =
        ''    4. PHILOSOPHY: Create a 'High Performance Hybrid' aesthetic. Act as a Custom Shop Luthier blending the original shape with aggressive, modern, or distressed (relic) modifications. Deviate from the original vintage philosophy to achieve a unique 'Frankenstein' super-mod look.''"
    if "Call_generateLutheriePrompt b s p \<in> set (snd (handleSimulate env (applyFrankensteinPreset st)))" for b s p
  proof -
    from handleSimulate_call[OF surjective_pairing that] have s: "s = specs (applyFrankensteinPreset st)"
      by blast
    show ?thesis
      unfolding s userPrompt_philosophy_line preset_instruction by simp
  qed
  show ?thesis
    using ht t d c by (simp add: preset_instruction)
qed

text \<open>
  The theorem in the state after an upload and the preset: the synthesizer is called, with
  the specification the preset made.
\<close>

theorem C9_witness:
  "Call_generateLutheriePrompt (Some ''QUJD'') (specs (applyFrankensteinPreset uploaded_state)) ''Standard Industry Design''
     \<in> set (snd (handleSimulate env_unreachable (applyFrankensteinPreset uploaded_state))) \<and>
   userPrompt_lines example_unicode_lower (specs (applyFrankensteinPreset uploaded_state)) ''Standard Industry Design''
       (or_default (notes (specs (applyFrankensteinPreset uploaded_state))) []) ! 21 =
     ''    4. PHILOSOPHY: Create a 'High Performance Hybrid' aesthetic. Act as a Custom Shop Luthier blending the original shape with aggressive, modern, or distressed (relic) modifications. Deviate from the original vintage philosophy to achieve a unique 'Frankenstein' super-mod look.''"
proof -
  have c: "Call_generateLutheriePrompt (Some ''QUJD'') (specs (applyFrankensteinPreset uploaded_state)) ''Standard Industry Design''
     \<in> set (snd (handleSimulate env_unreachable (applyFrankensteinPreset uploaded_state)))"
    by (simp add: handleSimulate_def applyFrankensteinPreset_def uploaded_state_def initial_state_def
          js_index_def or_default_def Let_def split: prod.splits sum.splits)
  from C9_preset_always_deviates[of uploaded_state example_unicode_lower "''Standard Industry Design''" env_unreachable] c
  show ?thesis by blast
qed

section \<open>Claim C5: the render result\<close>

text \<open>The loop over the parts returns the first image payload, if there is one.\<close>

lemma find_image_first:
  "find_image ps =
     (case filter (\<lambda>b. \<not> falsy (data b)) (List.map_filter inlineData ps) of
        [] \<Rightarrow> Inl (Error ''Image data not found in response'')
      | b # bs \<Rightarrow> Inr (''data:'' @ js_template (mimeType b) @ '';base64,'' @ js_template (data b)))"
proof (induction ps)
  case Nil
  then show ?case by (simp add: List.map_filter_simps)
next
  case (Cons part rest)
  then show ?case
    by (cases "inlineData part") (simp_all add: List.map_filter_simps)
qed

lemma truthy_data: "\<not> falsy x \<Longrightarrow> \<exists>d. x = Some d \<and> d \<noteq> [] \<and> js_template x = d"
  by (cases x) (simp_all add: falsy_def js_template_def)

text \<open>
  C5. For every response that the render call receives (credential present, remote call
  answered), \<open>generateModifiedGuitarImage\<close> fails when the response carries no inline
  image payload, with \<open>No image generated\<close> when the first candidate has no parts and
  \<open>Image data not found in response\<close> otherwise; when there is a payload, it returns
  the URI \<open>data:\<close> MIME type \<open>;base64,\<close> data of the first one. (An absent MIME
  type is rendered as the word \<open>undefined\<close>.)
\<close>

theorem C5_image_uri_or_failure:
  assumes "getAiClient env = Inr k"
    and "generateContent env (image_request technicalPrompt) = Inr response"
  shows "(inline_images response = [] \<longrightarrow>
            fst (generateModifiedGuitarImage env technicalPrompt) =
              Inl (Error (if response_parts response = None then ''No image generated''
                          else ''Image data not found in response''))) \<and>
         (\<forall>b bs. inline_images response = b # bs \<longrightarrow>
            (\<exists>d. data b = Some d \<and> d \<noteq> [] \<and>
                 fst (generateModifiedGuitarImage env technicalPrompt) =
                   Inr (''data:'' @ js_template (mimeType b) @ '';base64,'' @ d)))"
proof (cases "response_parts response")
  case None
  then show ?thesis
    using assms by (simp add: generateModifiedGuitarImage_def inline_images_def)
next
  case (Some ps)
  have r: "fst (generateModifiedGuitarImage env technicalPrompt) = find_image ps"
    using assms Some by (simp add: generateModifiedGuitarImage_def)
  have i: "inline_images response = filter (\<lambda>b. \<not> falsy (data b)) (List.map_filter inlineData ps)"
    using Some by (simp add: inline_images_def)
  show ?thesis
  proof (intro conjI impI allI)
    assume "inline_images response = []"
    then show "fst (generateModifiedGuitarImage env technicalPrompt) =
              Inl (Error (if response_parts response = None then ''No image generated''
                          else ''Image data not found in response''))"
      unfolding r find_image_first i[symmetric] using Some by simp
  next
    fix b bs
    assume e: "inline_images response = b # bs"
    then have "b \<in> set (filter (\<lambda>b. \<not> falsy (data b)) (List.map_filter inlineData ps))"
      using i by simp
    then have "\<not> falsy (data b)" by simp
    from truthy_data[OF this] obtain d where d: "data b = Some d" "d \<noteq> []" "js_template (data b) = d"
      by blast
    from i e have f: "filter (\<lambda>b. \<not> falsy (data b)) (List.map_filter inlineData ps) = b # bs"
      by simp
    have "fst (generateModifiedGuitarImage env technicalPrompt) =
            Inr (''data:'' @ js_template (mimeType b) @ '';base64,'' @ d)"
      unfolding r find_image_first f using d by simp
    with d show "\<exists>d. data b = Some d \<and> d \<noteq> [] \<and>
                 fst (generateModifiedGuitarImage env technicalPrompt) =
                   Inr (''data:'' @ js_template (mimeType b) @ '';base64,'' @ d)"
      by blast
  qed
qed

text \<open>
  The theorem at a response with a text part and an image part, and at a response with
  no candidates.
\<close>

theorem C5_witness:
  "getAiClient env_answering = Inr ''test-key'' \<and>
   generateContent env_answering (image_request ''A guitar.'') = Inr example_image_response \<and>
   inline_images example_image_response = [\<lparr>mimeType = Some ''image/png'', data = Some ''iVBORw0KGgo=''\<rparr>] \<and>
   fst (generateModifiedGuitarImage env_answering ''A guitar.'') = Inr ''data:image/png;base64,iVBORw0KGgo='' \<and>
   getAiClient env_silent = Inr ''test-key'' \<and>
   generateContent env_silent (image_request ''A guitar.'') = Inr \<lparr>responseText = None, candidates = None\<rparr> \<and>
   inline_images \<lparr>responseText = None, candidates = None\<rparr> = [] \<and>
   fst (generateModifiedGuitarImage env_silent ''A guitar.'') = Inl (Error ''No image generated'')"
proof -
  have k1: "getAiClient env_answering = Inr ''test-key''"
    by (simp add: getAiClient_def env_answering_def)
  have r1: "generateContent env_answering (image_request ''A guitar.'') = Inr example_image_response"
    by (simp add: env_answering_def example_generateContent_def request_models)
  have i1: "inline_images example_image_response = [\<lparr>mimeType = Some ''image/png'', data = Some ''iVBORw0KGgo=''\<rparr>]"
    by (simp add: inline_images_def response_parts_def example_image_response_def js_index_def
          List.map_filter_simps falsy_def)
  have k2: "getAiClient env_silent = Inr ''test-key''"
    by (simp add: getAiClient_def env_silent_def)
  have r2: "generateContent env_silent (image_request ''A guitar.'') = Inr \<lparr>responseText = None, candidates = None\<rparr>"
    by (simp add: env_silent_def)
  have i2: "inline_images \<lparr>responseText = None, candidates = None\<rparr> = []"
    by (simp add: inline_images_def response_parts_def)
  have p2: "response_parts \<lparr>responseText = None, candidates = None\<rparr> = None"
    by (simp add: response_parts_def)
  from C5_image_uri_or_failure[OF k1 r1] i1
  have a: "fst (generateModifiedGuitarImage env_answering ''A guitar.'') = Inr ''data:image/png;base64,iVBORw0KGgo=''"
    by (simp add: js_template_def)
  from C5_image_uri_or_failure[OF k2 r2] i2 p2
  have b: "fst (generateModifiedGuitarImage env_silent ''A guitar.'') = Inl (Error ''No image generated'')"
    by simp
  show ?thesis using k1 r1 i1 a k2 r2 i2 b by simp
qed

section \<open>Claim C4: failure and success of the analysis\<close>

lemma performAnalysis_failure:
  assumes "fst (analyzeGuitarImage env base64) = Inl e"
  shows "fst (performAnalysis env base64 st) =
           st\<lparr>isAnalyzing := False,
              error := Some ''Failed to analyze image acoustics. Please check API Key.''\<rparr>"
  using assms by (cases "analyzeGuitarImage env base64") (simp add: performAnalysis_def)

lemma performAnalysis_success:
  assumes "fst (analyzeGuitarImage env base64) = Inr result"
  shows "fst (performAnalysis env base64 st) =
           st\<lparr>isAnalyzing := False, analysisResult := Some result\<rparr>"
  using assms by (cases "analyzeGuitarImage env base64") (simp add: performAnalysis_def)

text \<open>
  C4. When the analysis call fails, \<open>performAnalysis\<close> sets the user-visible message in
  \<open>error\<close> and clears the busy flag, and changes nothing else: the analysis result in
  the state is the one from before, whole. In \<open>handleFileUpload\<close> the result of the
  previous image has been cleared before the call, so after a failed analysis
  \<open>analysisResult\<close> is \<open>null\<close> with the message shown. When the analysis call
  succeeds, \<open>analysisResult\<close> is the new result, whole, whatever it held before.
\<close>

theorem C4_analysis_failure_and_success:
  "(fst (analyzeGuitarImage env base64) = Inl e \<longrightarrow>
      fst (performAnalysis env base64 st) =
        st\<lparr>isAnalyzing := False,
           error := Some ''Failed to analyze image acoustics. Please check API Key.''\<rparr> \<and>
      analysisResult (fst (performAnalysis env base64 st)) = analysisResult st) \<and>
   (fileToGenerativePart env file = Inr base64 \<and> fst (analyzeGuitarImage env base64) = Inl e \<longrightarrow>
      analysisResult (fst (handleFileUpload env (Some file) st)) = None \<and>
      error (fst (handleFileUpload env (Some file) st)) =
        Some ''Failed to analyze image acoustics. Please check API Key.'' \<and>
      isAnalyzing (fst (handleFileUpload env (Some file) st)) = False) \<and>
   (fst (analyzeGuitarImage env base64) = Inr result \<longrightarrow>
      fst (performAnalysis env base64 st) = st\<lparr>isAnalyzing := False, analysisResult := Some result\<rparr>) \<and>
   (fileToGenerativePart env file = Inr base64 \<and> fst (analyzeGuitarImage env base64) = Inr result \<longrightarrow>
      analysisResult (fst (handleFileUpload env (Some file) st)) = Some result \<and>
      error (fst (handleFileUpload env (Some file) st)) = None \<and>
      isAnalyzing (fst (handleFileUpload env (Some file) st)) = False)"
proof (intro conjI impI)
  assume f: "fst (analyzeGuitarImage env base64) = Inl e"
  show "fst (performAnalysis env base64 st) =
        st\<lparr>isAnalyzing := False,
           error := Some ''Failed to analyze image acoustics. Please check API Key.''\<rparr>"
    by (rule performAnalysis_failure[OF f])
  then show "analysisResult (fst (performAnalysis env base64 st)) = analysisResult st"
    by simp
next
  assume a: "fileToGenerativePart env file = Inr base64 \<and> fst (analyzeGuitarImage env base64) = Inl e"
  then have u: "fst (handleFileUpload env (Some file) st) =
      fst (performAnalysis env base64
             (st\<lparr>rawFile := Some file,
                 originalImage := Some (''data:'' @ file_type file @ '';base64,'' @ js_template base64),
                 generatedImage := None, generatedPrompt := None, analysisResult := None,
                 error := None, activeTab := configurator\<rparr>))"
    by (simp add: handleFileUpload_def)
  from a have f: "fst (analyzeGuitarImage env base64) = Inl e" by simp
  show "analysisResult (fst (handleFileUpload env (Some file) st)) = None"
    unfolding u performAnalysis_failure[OF f] by simp
  show "error (fst (handleFileUpload env (Some file) st)) =
        Some ''Failed to analyze image acoustics. Please check API Key.''"
    unfolding u performAnalysis_failure[OF f] by simp
  show "isAnalyzing (fst (handleFileUpload env (Some file) st)) = False"
    unfolding u performAnalysis_failure[OF f] by simp
next
  assume s: "fst (analyzeGuitarImage env base64) = Inr result"
  show "fst (performAnalysis env base64 st) = st\<lparr>isAnalyzing := False, analysisResult := Some result\<rparr>"
    by (rule performAnalysis_success[OF s])
next
  assume a: "fileToGenerativePart env file = Inr base64 \<and> fst (analyzeGuitarImage env base64) = Inr result"
  then have u: "fst (handleFileUpload env (Some file) st) =
      fst (performAnalysis env base64
             (st\<lparr>rawFile := Some file,
                 originalImage := Some (''data:'' @ file_type file @ '';base64,'' @ js_template base64),
                 generatedImage := None, generatedPrompt := None, analysisResult := None,
                 error := None, activeTab := configurator\<rparr>))"
    by (simp add: handleFileUpload_def)
  from a have s: "fst (analyzeGuitarImage env base64) = Inr result" by simp
  show "analysisResult (fst (handleFileUpload env (Some file) st)) = Some result"
    unfolding u performAnalysis_success[OF s] by simp
  show "error (fst (handleFileUpload env (Some file) st)) = None"
    unfolding u performAnalysis_success[OF s] by simp
  show "isAnalyzing (fst (handleFileUpload env (Some file) st)) = False"
    unfolding u performAnalysis_success[OF s] by simp
qed

lemma example_file_part:
  "fileToGenerativePart env_answering example_file = Inr (Some ''QUJD'')"
  "fileToGenerativePart env_unreachable example_file = Inr (Some ''QUJD'')"
  by (simp_all add: fileToGenerativePart_def env_answering_def env_unreachable_def
        example_readAsDataURL_def example_file_def js_index_def)

lemma example_analysis_answer:
  "analyzeGuitarImage env_answering (Some ''QUJD'') =
     (Inr example_analysis, [Request (analysis_request (Some ''QUJD''))])"
  by (simp add: analyzeGuitarImage_def getAiClient_def env_answering_def
        example_generateContent_def request_models example_JSON_parse_def example_analysis_text_def)

lemma example_analysis_unreachable:
  "analyzeGuitarImage env_unreachable (Some ''QUJD'') =
     (Inl (Error ''Failed to fetch''), [Request (analysis_request (Some ''QUJD''))])"
  by (simp add: analyzeGuitarImage_def getAiClient_def env_unreachable_def)

text \<open>
  The theorem at a state that holds the analysis of an earlier image: a new upload whose
  analysis fails, and a new upload whose analysis succeeds.
\<close>

theorem C4_witness:
  "fileToGenerativePart env_unreachable example_file = Inr (Some ''QUJD'') \<and>
   fst (analyzeGuitarImage env_unreachable (Some ''QUJD'')) = Inl (Error ''Failed to fetch'') \<and>
   analysisResult (fst (performAnalysis env_unreachable (Some ''QUJD'')
      (uploaded_state\<lparr>analysisResult := Some example_analysis\<rparr>))) = Some example_analysis \<and>
   analysisResult (fst (handleFileUpload env_unreachable (Some example_file)
      (uploaded_state\<lparr>analysisResult := Some example_analysis\<rparr>))) = None \<and>
   error (fst (handleFileUpload env_unreachable (Some example_file)
      (uploaded_state\<lparr>analysisResult := Some example_analysis\<rparr>))) =
     Some ''Failed to analyze image acoustics. Please check API Key.'' \<and>
   fileToGenerativePart env_answering example_file = Inr (Some ''QUJD'') \<and>
   fst (analyzeGuitarImage env_answering (Some ''QUJD'')) = Inr example_analysis \<and>
   analysisResult (fst (handleFileUpload env_answering (Some example_file) uploaded_state)) =
     Some example_analysis"
proof -
  have f: "fst (analyzeGuitarImage env_unreachable (Some ''QUJD'')) = Inl (Error ''Failed to fetch'')"
    by (simp add: example_analysis_unreachable)
  have s: "fst (analyzeGuitarImage env_answering (Some ''QUJD'')) = Inr example_analysis"
    by (simp add: example_analysis_answer)
  note c1 = C4_analysis_failure_and_success
              [of env_unreachable "Some ''QUJD''" "Error ''Failed to fetch''"
                  "uploaded_state\<lparr>analysisResult := Some example_analysis\<rparr>" example_file example_analysis]
  note c2 = C4_analysis_failure_and_success
              [of env_answering "Some ''QUJD''" "Error ''Failed to fetch''"
                  uploaded_state example_file example_analysis]
  show ?thesis
    using c1 c2 f s example_file_part by simp
qed

section \<open>Claim C3: a stream that fails partway\<close>

lemma set_last_snoc: "set_last (h @ [x]) m = h @ [m]"
  by (simp add: set_last_def)

lemma stream_loop_accumulates:
  "stream_loop cs acc (h @ [\<lparr>role = Role_model, text = acc\<rparr>]) =
     h @ [\<lparr>role = Role_model, text = acc @ concat (map (\<lambda>c. or_default (responseText c) []) cs)\<rparr>]"
proof (induction cs arbitrary: acc)
  case Nil
  then show ?case by simp
next
  case (Cons c cs)
  show ?case
    by (simp add: Let_def set_last_snoc Cons.IH)
qed

text \<open>
  C3, as amended. If a streamed advisory response fails after the stream has started, the
  fixed interruption notice is appended to the transcript as a new last entry; the
  text accumulated so far is kept, as the entry just before the notice (it is the empty
  text when no chunk had arrived). The transcript of before and the user's message are
  kept, \<open>isChatting\<close> is reset, the input is empty and the session is the same, so a
  further message can be sent.
\<close>

theorem C3_interruption_notice_appended:
  assumes "chatSession st = Some session"
    and "js_trim (chatInput st) \<noteq> []"
    and "sendMessageStream env session (chatInput st) = Stream chunks (Some e)"
  shows "chatHistory (handleSendMessage env st) =
           chatHistory st @
           [\<lparr>role = Role_user, text = chatInput st\<rparr>,
            \<lparr>role = Role_model, text = concat (map (\<lambda>c. or_default (responseText c) []) chunks)\<rparr>,
            \<lparr>role = Role_model, text = ''Connection to Luthier Intelligence Interrupted.''\<rparr>] \<and>
         last (chatHistory (handleSendMessage env st)) =
           \<lparr>role = Role_model, text = ''Connection to Luthier Intelligence Interrupted.''\<rparr> \<and>
         isChatting (handleSendMessage env st) = False \<and>
         chatInput (handleSendMessage env st) = [] \<and>
         chatSession (handleSendMessage env st) = Some session"
proof -
  have l: "stream_loop chunks []
             ((chatHistory st @ [\<lparr>role = Role_user, text = chatInput st\<rparr>]) @ [\<lparr>role = Role_model, text = []\<rparr>]) =
           (chatHistory st @ [\<lparr>role = Role_user, text = chatInput st\<rparr>]) @
           [\<lparr>role = Role_model, text = [] @ concat (map (\<lambda>c. or_default (responseText c) []) chunks)\<rparr>]"
    by (rule stream_loop_accumulates)
  show ?thesis
    using assms l by (simp add: handleSendMessage_def Let_def)
qed

lemma asking_state_session:
  "chatSession asking_state \<noteq> None"
  "chatInput asking_state = ''What wood gives the best attack?''"
  "chatHistory asking_state =
     [\<lparr>role = Role_model,
       text = ''I am your Digital Luthier. Ask me about tonewood physics, neck geometry, or hardware mechanics.''\<rparr>]"
  by (simp_all add: asking_state_def mount_def createLuthierChatSession_def getAiClient_def
        env_answering_def)

lemma asking_input_not_blank: "js_trim ''What wood gives the best attack?'' \<noteq> []"
  by (simp add: js_trim_def whitespace_def)

text \<open>
  The theorem at a question whose answer breaks off after the fragment \<open>Map\<close>.
\<close>

theorem C3_witness:
  "chatSession asking_state \<noteq> None \<and>
   js_trim (chatInput asking_state) \<noteq> [] \<and>
   chatHistory (handleSendMessage env_answering asking_state) =
     [\<lparr>role = Role_model,
       text = ''I am your Digital Luthier. Ask me about tonewood physics, neck geometry, or hardware mechanics.''\<rparr>,
      \<lparr>role = Role_user, text = ''What wood gives the best attack?''\<rparr>,
      \<lparr>role = Role_model, text = ''Map''\<rparr>,
      \<lparr>role = Role_model, text = ''Connection to Luthier Intelligence Interrupted.''\<rparr>] \<and>
   isChatting (handleSendMessage env_answering asking_state) = False"
proof -
  obtain session where s: "chatSession asking_state = Some session"
    using asking_state_session(1) by blast
  have t: "js_trim (chatInput asking_state) \<noteq> []"
    by (simp add: asking_state_session(2) asking_input_not_blank)
  have r: "sendMessageStream env_answering session (chatInput asking_state) =
             Stream [\<lparr>responseText = Some ''Map'', candidates = None\<rparr>] (Some (Error ''stream closed''))"
    by (simp add: env_answering_def example_interrupted_stream_def)
  show ?thesis
    using C3_interruption_notice_appended[OF s t r] s t
    by (simp add: asking_state_session or_default_def)
qed

text \<open>
  C3 as stated fails: after the failure the accumulated fragment \<open>Map\<close> is still an
  entry of the transcript, which is not the transcript of before followed by the
  user's message and the notice.
\<close>

theorem C3_counterexample:
  "\<lparr>role = Role_model, text = ''Map''\<rparr> \<in> set (chatHistory (handleSendMessage env_answering asking_state)) \<and>
   chatHistory (handleSendMessage env_answering asking_state) \<noteq>
     chatHistory asking_state @
     [\<lparr>role = Role_user, text = chatInput asking_state\<rparr>,
      \<lparr>role = Role_model, text = ''Connection to Luthier Intelligence Interrupted.''\<rparr>]"
proof -
  have h: "chatHistory (handleSendMessage env_answering asking_state) =
     [\<lparr>role = Role_model,
       text = ''I am your Digital Luthier. Ask me about tonewood physics, neck geometry, or hardware mechanics.''\<rparr>,
      \<lparr>role = Role_user, text = ''What wood gives the best attack?''\<rparr>,
      \<lparr>role = Role_model, text = ''Map''\<rparr>,
      \<lparr>role = Role_model, text = ''Connection to Luthier Intelligence Interrupted.''\<rparr>]"
    by (simp add: handleSendMessage_def asking_state_def mount_def createLuthierChatSession_def
          getAiClient_def env_answering_def example_interrupted_stream_def js_trim_def
          whitespace_def set_last_def or_default_def Let_def)
  show ?thesis
    unfolding h by (simp add: asking_state_session)
qed

section \<open>Claim C8: the defaults and the preserve-philosophy scenario\<close>

lemma mount_keeps:
  "analysisResult (mount env st) = analysisResult st"
  "specs (mount env st) = specs st"
  by (simp_all add: mount_def split: sum.splits)

lemma analyze_success_has_client:
  "fst (analyzeGuitarImage env b) = Inr r \<Longrightarrow> \<exists>k. getAiClient env = Inr k"
  by (cases "getAiClient env") (simp_all add: analyzeGuitarImage_def)

lemma no_trigger_in_empty_notes: "\<not> has_trigger_word []"
  by (simp add: has_trigger_word_def trigger_words_def contains_ignoring_case_def)

lemma empty_notes_instruction:
  "philosophyInstruction table [] p =
     ''Ensure the aesthetic respects the original instrument's philosophy ('' @ p @ '') unless the modification explicitly contradicts it.''"
  by (simp add: philosophyInstruction_def isFrankenstein_def js_toLowerCase_def)

text \<open>What an upload leaves behind when its analysis has produced a result.\<close>

lemma upload_with_result:
  assumes "handleFileUpload env (Some file) st = (st1, ev1)"
    and "analysisResult st = None"
    and "analysisResult st1 = Some r"
  shows "(\<exists>img. originalImage st1 = Some (''data:'' @ img)) \<and> specs st1 = specs st \<and>
         (\<exists>k. getAiClient env = Inr k)"
proof (cases "fileToGenerativePart env file")
  case (Inl e)
  with assms show ?thesis by (auto simp: handleFileUpload_def)
next
  case (Inr base64)
  define stX where "stX = st\<lparr>rawFile := Some file,
                 originalImage := Some (''data:'' @ file_type file @ '';base64,'' @ js_template base64),
                 generatedImage := None, generatedPrompt := None, analysisResult := None,
                 error := None, activeTab := configurator\<rparr>"
  have u: "st1 = fst (performAnalysis env base64 stX)"
    using assms(1) Inr by (simp add: handleFileUpload_def stX_def)
  show ?thesis
  proof (cases "fst (analyzeGuitarImage env base64)")
    case (Inl e)
    from performAnalysis_failure[OF Inl, of stX] u assms(3) show ?thesis
      by (simp add: stX_def)
  next
    case (Inr result)
    from performAnalysis_success[OF Inr, of stX] u analyze_success_has_client[OF Inr]
    show ?thesis by (simp add: stX_def)
  qed
qed

text \<open>
  C8. The specification record starts as Alder, Modern C, Rosewood, Tune-o-matic (Fixed),
  HH (Dual Humbuckers), scale length 24.75", radius 12" and empty notes, which contain no
  trigger word. From the start of the session, when an image is uploaded, its analysis
  returns a philosophy (any non-empty text, such as \<open>Artesanal (Gibson)\<close>) and the
  specification is left as it is, generating calls the synthesizer first, with the default
  specification and the detected philosophy as the original philosophy, and sends its
  request; the instruction built is the preserve-philosophy text with the detected
  philosophy embedded, on line 21 of the prompt.
\<close>

theorem C8_defaults_preserve_philosophy:
  assumes "handleFileUpload env (Some file) (mount env initial_state) = (st1, ev1)"
    and "analysisResult st1 = Some r"
    and "detectedSpecs r = Some d"
    and "d ''philosophy'' = Some detected"
    and "detected \<noteq> []"
    and "handleSimulate env st1 = (st2, ev2)"
  shows "specs initial_state = initial_specs \<and>
         bodyWood initial_specs = BodyWood.ALDER \<and>
         neckProfile initial_specs = NeckProfile.MODERN_C \<and>
         fretboard initial_specs = FretboardMaterial.ROSEWOOD \<and>
         bridge initial_specs = BridgeSystem.TUNE_O_MATIC \<and>
         BridgeSystem_value (bridge initial_specs) = ''Tune-o-matic (Fixed)'' \<and>
         pickups initial_specs = PickupConfig.HH \<and>
         PickupConfig_value (pickups initial_specs) = ''HH (Dual Humbuckers)'' \<and>
         scaleLength initial_specs = ''24.75\"'' \<and>
         fretboardRadius initial_specs = ''12\"'' \<and>
         notes initial_specs = Some [] \<and>
         \<not> has_trigger_word (or_default (notes initial_specs) []) \<and>
         specs st1 = initial_specs \<and>
         (\<exists>b. take 2 ev2 =
                [Call_generateLutheriePrompt b initial_specs detected,
                 Request (lutherie_request (unicode_lower env) b initial_specs detected)]) \<and>
         philosophyInstruction (unicode_lower env) (or_default (notes initial_specs) []) detected =
           ''Ensure the aesthetic respects the original instrument's philosophy ('' @ detected @ '') unless the modification explicitly contradicts it.'' \<and>
         userPrompt_lines (unicode_lower env) initial_specs detected (or_default (notes initial_specs) []) ! 21 =
           ''    4. PHILOSOPHY: Ensure the aesthetic respects the original instrument's philosophy ('' @ detected @ '') unless the modification explicitly contradicts it.''"
proof -
  have n: "or_default (notes initial_specs) [] = []"
    by (simp add: initial_specs_def or_default_def)
  have a0: "analysisResult (mount env initial_state) = None"
    by (simp add: mount_keeps initial_state_def)
  from upload_with_result[OF assms(1) a0 assms(2)] obtain img k where
    img: "originalImage st1 = Some (''data:'' @ img)" and sp: "specs st1 = initial_specs"
    and k: "getAiClient env = Inr k"
    by (auto simp: mount_keeps initial_state_def)
  define b where "b = js_index (js_split CHR '','' (''data:'' @ img)) 1"
  have p: "or_default
               (case analysisResult st1 of
                  None \<Rightarrow> None
                | Some r \<Rightarrow> (case detectedSpecs r of None \<Rightarrow> None | Some d \<Rightarrow> d ''philosophy''))
               ''Standard Industry Design'' = detected"
    using assms(2,3,4,5) by (simp add: or_default_def)
  obtain r1 e1 where g: "generateLutheriePrompt env b initial_specs (Some detected) = (r1, e1)"
    by (cases "generateLutheriePrompt env b initial_specs (Some detected)")
  from g k have e1: "e1 = [Request (lutherie_request (unicode_lower env) b initial_specs detected)]"
    using generateLutheriePrompt_events[of env b initial_specs detected] by simp
  have t: "take 2 ev2 =
                [Call_generateLutheriePrompt b initial_specs detected,
                 Request (lutherie_request (unicode_lower env) b initial_specs detected)]"
    using assms(6) img sp p g e1 unfolding b_def
    by (auto simp: handleSimulate_def Let_def split: sum.splits prod.splits)
  show ?thesis
    unfolding n userPrompt_philosophy_line empty_notes_instruction
    using t sp no_trigger_in_empty_notes
    by (auto simp: initial_specs_def initial_state_def)
qed

text \<open>
  The theorem at the environment whose service answers: the upload of the example file,
  whose analysis detects \<open>Artesanal (Gibson)\<close>, then generating.
\<close>

theorem C8_witness:
  "analysisResult (fst (handleFileUpload env_answering (Some example_file) (mount env_answering initial_state))) =
     Some example_analysis \<and>
   detectedSpecs example_analysis = Some [''philosophy'' \<mapsto> ''Artesanal (Gibson)''] \<and>
   (\<exists>b. take 2 (snd (handleSimulate env_answering
            (fst (handleFileUpload env_answering (Some example_file) (mount env_answering initial_state))))) =
      [Call_generateLutheriePrompt b initial_specs ''Artesanal (Gibson)'',
       Request (lutherie_request (unicode_lower env_answering) b initial_specs ''Artesanal (Gibson)'')]) \<and>
   philosophyInstruction (unicode_lower env_answering) (or_default (notes initial_specs) []) ''Artesanal (Gibson)'' =
     ''Ensure the aesthetic respects the original instrument's philosophy (Artesanal (Gibson)) unless the modification explicitly contradicts it.''"
proof -
  have a: "analysisResult (fst (handleFileUpload env_answering (Some example_file) (mount env_answering initial_state))) =
     Some example_analysis"
    by (simp add: handleFileUpload_def example_file_part performAnalysis_def example_analysis_answer)
  have d: "detectedSpecs example_analysis = Some [''philosophy'' \<mapsto> ''Artesanal (Gibson)'']"
    by (simp add: example_analysis_def)
  have p: "[''philosophy'' \<mapsto> ''Artesanal (Gibson)''] ''philosophy'' = Some ''Artesanal (Gibson)''"
    by simp
  have ne: "''Artesanal (Gibson)'' \<noteq> []" by simp
  have e: "''Ensure the aesthetic respects the original instrument's philosophy ('' @ ''Artesanal (Gibson)'' @ '') unless the modification explicitly contradicts it.'' =
           ''Ensure the aesthetic respects the original instrument's philosophy (Artesanal (Gibson)) unless the modification explicitly contradicts it.''"
    by simp
  from C8_defaults_preserve_philosophy[OF surjective_pairing a d p ne surjective_pairing] a d
  show ?thesis unfolding e by blast
qed

end
